theory Spec2Isabelle
  imports Main "HOL-Library.AList"
begin

section \<open>Realtime delivery, deduplication and reconciliation in the web client\<close>

text \<open>
  The development embeds the client-side handlers of the push connection
  (\<^verbatim>\<open>WebSocketContext\<close>), the notification bell (\<^verbatim>\<open>Layout.tsx\<close>), the request
  cache (\<^verbatim>\<open>Dashboard.tsx\<close>) and the conversation (\<^verbatim>\<open>Chat.tsx\<close>). React state,
  refs, \<^verbatim>\<open>localStorage\<close> and \<^verbatim>\<open>sessionStorage\<close> are fields of explicit state
  records; \<^verbatim>\<open>Date.now()\<close> is a parameter (milliseconds); a state updater
  \<^verbatim>\<open>setX(prev => ...)\<close> reads the field of the state it is applied to.
\<close>

subsection \<open>The push connection: close handling\<close>

text \<open>
  \<^verbatim>\<open>localStorage.getItem('token')\<close> is a string or null and is used as a
  condition: null and the empty string are falsy.
\<close>

definition truthy_str :: "string option \<Rightarrow> bool" where
  "truthy_str v = (case v of None \<Rightarrow> False | Some s \<Rightarrow> s \<noteq> [])"

datatype callback = ConnectWebSocket

text \<open>
  The provider: the \<^verbatim>\<open>ws\<close> and \<^verbatim>\<open>connected\<close> state, the two refs, the \<^verbatim>\<open>user\<close>
  seen by the handler, the stored token, and the timeouts requested so far,
  each with its delay in milliseconds and its callback. A socket is named by
  a number; \<^verbatim>\<open>reconnectTimeoutRef\<close> holds the position of the last timeout
  requested by the close handler.
\<close>

record ws_provider =
  ws :: "nat option"
  connected :: bool
  wsRef :: "nat option"
  reconnectTimeoutRef :: "nat option"
  user :: "string option"
  token :: "string option"
  timeouts :: "(nat \<times> callback) list"

text \<open>\<^verbatim>\<open>websocket.onclose\<close>, with \<^verbatim>\<open>event.code\<close> as the argument.\<close>

definition onclose :: "nat \<Rightarrow> ws_provider \<Rightarrow> ws_provider" where
  "onclose code s =
     (let s1 = s\<lparr>connected := False, ws := None, wsRef := None\<rparr>
      in if code \<noteq> 1000 \<and> code \<noteq> 1001 \<and> code \<noteq> 1005 \<and> code \<noteq> 1012
            \<and> user s \<noteq> None \<and> truthy_str (token s)
         then s1\<lparr>reconnectTimeoutRef := Some (length (timeouts s)),
                 timeouts := timeouts s @ [(1000, ConnectWebSocket)]\<rparr>
         else s1)"

subsection \<open>JavaScript strings\<close>

text \<open>
  Strings are byte lists. Every pattern the handlers search for is ASCII, and
  an ASCII byte never occurs inside a multi-byte UTF-8 sequence, so searching
  bytes agrees with searching UTF-16 code units.
\<close>

fun startsWith :: "string \<Rightarrow> string \<Rightarrow> bool" where
  "startsWith s [] = True"
| "startsWith [] (p # ps) = False"
| "startsWith (c # cs) (p # ps) = (c = p \<and> startsWith cs ps)"

text \<open>\<^verbatim>\<open>s.includes(sub)\<close>: \<open>sub\<close> occurs in \<open>s\<close>; the empty string occurs everywhere.\<close>

fun js_includes :: "string \<Rightarrow> string \<Rightarrow> bool" where
  "js_includes [] sub = (sub = [])"
| "js_includes (c # cs) sub = (startsWith (c # cs) sub \<or> js_includes cs sub)"

text \<open>\<^verbatim>\<open>s.split(c)\<close> for a one-character separator; \<^verbatim>\<open>''.split(c)\<close> is \<^verbatim>\<open>['']\<close>.\<close>

fun split_on :: "char \<Rightarrow> string \<Rightarrow> string list" where
  "split_on c [] = [[]]"
| "split_on c (x # xs) =
     (if x = c then [] # split_on c xs
      else (case split_on c xs of [] \<Rightarrow> [[x]] | piece # rest \<Rightarrow> (x # piece) # rest))"

text \<open>\<^verbatim>\<open>xs[i]\<close>: \<^verbatim>\<open>undefined\<close> out of range.\<close>

fun index :: "'a list \<Rightarrow> nat \<Rightarrow> 'a option" where
  "index [] i = None"
| "index (x # xs) 0 = Some x"
| "index (x # xs) (Suc i) = index xs i"

text \<open>The text of a value inside a string operation: \<^verbatim>\<open>undefined\<close> becomes its name.\<close>

definition to_str :: "string option \<Rightarrow> string" where
  "to_str v = (case v of None \<Rightarrow> ''undefined'' | Some s \<Rightarrow> s)"

definition digit_char :: "nat \<Rightarrow> char" where
  "digit_char d = ''0123456789'' ! (d mod 10)"

text \<open>The decimal text of \<^verbatim>\<open>Date.now()\<close> inside a template literal.\<close>

function string_of_nat :: "nat \<Rightarrow> string" where
  "string_of_nat n =
     (if n < 10 then [digit_char n] else string_of_nat (n div 10) @ [digit_char n])"
  by pat_completeness auto
termination
  by (relation "measure id") auto

declare string_of_nat.simps [simp del]

definition is_digit :: "char \<Rightarrow> bool" where
  "is_digit c = (c \<in> set ''0123456789'')"

text \<open>A match of \<^verbatim>\<open>/PR #\d+/\<close> at the start of the string.\<close>

definition pr_at :: "string \<Rightarrow> bool" where
  "pr_at s = (startsWith s ''PR #'' \<and> (case drop 4 s of [] \<Rightarrow> False | d # _ \<Rightarrow> is_digit d))"

text \<open>
  \<^verbatim>\<open>message.replace(/PR #\d+/g, 'Pull Request')\<close>: the matches are taken from left
  to right, each with all the digits that follow (\<^verbatim>\<open>\d+\<close> is greedy), and the
  search resumes after the match.
\<close>

function replace_pr :: "string \<Rightarrow> string" where
  "replace_pr [] = []"
| "replace_pr (c # cs) =
     (if pr_at (c # cs)
      then ''Pull Request'' @ replace_pr (dropWhile is_digit (drop 4 (c # cs)))
      else c # replace_pr cs)"
  by pat_completeness auto
termination
proof (relation "measure length")
  fix c :: char and cs :: string
  have "length (dropWhile is_digit (drop 3 cs)) \<le> length (drop 3 cs)"
    by (rule length_dropWhile_le)
  then show "(dropWhile is_digit (drop 4 (c # cs)), c # cs) \<in> measure length"
    by simp
qed auto

subsection \<open>JSON values\<close>

text \<open>
  A decoded JSON value. A number is kept as the text JavaScript renders for it
  (two numbers are equal exactly when their texts are); an object is the list
  of its fields in order.
\<close>

datatype jval =
    JNull
  | JBool bool
  | JNum string
  | JStr string
  | JArr "jval list"
  | JObj "(string \<times> jval) list"

type_synonym request = "(string \<times> jval) list"

subsection \<open>The notification bell (Layout)\<close>

datatype severity = Success | Error | Info | Warning

text \<open>
  \<^verbatim>\<open>StoredNotification\<close>. The timestamp is the \<^verbatim>\<open>Date\<close>'s milliseconds;
  \<^verbatim>\<open>deployment_details\<close> is opaque and kept as its JSON text.
\<close>

record stored_notification =
  nid :: string
  title :: string
  message :: string
  ntype :: severity
  timestamp :: int
  read :: bool
  deployment_details :: "string option"

text \<open>The \<^verbatim>\<open>popup\<close> object of a \<^verbatim>\<open>popup_notification\<close> event.\<close>

record popup =
  popup_id :: "string option"
  popup_title :: string
  popup_message :: string
  popup_type :: "severity option"

text \<open>\<^verbatim>\<open>ButtonOption\<close>\<close>

record button_option =
  button_text :: string
  button_value :: string
  variant :: "string option"
  color :: "string option"

text \<open>
  A decoded push payload (\<^verbatim>\<open>data\<close>). Fields that a kind does not carry are
  \<open>None\<close>. \<open>data_timestamp\<close> is the text the template literal renders for
  \<^verbatim>\<open>data.timestamp\<close>, \<open>None\<close> when the field is absent or falsy. \<open>data_request\<close>
  is the request summary of a \<^verbatim>\<open>request_update\<close>.
\<close>

record wire_event =
  data_type :: string
  data_message_id :: "string option"
  data_timestamp :: "string option"
  data_popup :: "popup option"
  data_title :: string
  data_message :: "string option"
  data_notification_type :: string
  data_data :: "string option"
  data_request :: "request option"
  data_buttons :: "button_option list option"
  data_show_text_input :: "bool option"
  data_greeting :: bool
  data_approved :: bool

text \<open>The \<^verbatim>\<open>popup_delivered\<close> acknowledgment sent on the socket.\<close>

record popup_delivered =
  ack_popup_id :: "string option"
  ack_message_id :: string
  ack_timestamp :: nat

datatype api_call = MarkAsRead string | MarkAllAsRead | ClearAll

text \<open>
  The component: its React state, the two \<^verbatim>\<open>localStorage\<close> entries it owns
  (\<open>None\<close> when the key is absent), whether the socket \<^verbatim>\<open>ws\<close> is present, and
  the effects it has produced, in order: popups opened, sounds played,
  messages sent on the socket, \<^verbatim>\<open>requestUpdate\<close> events dispatched on the
  window, and HTTP calls issued.
\<close>

record layout_state =
  storedNotifications :: "stored_notification list"
  notificationCount :: nat
  notificationAnchor :: bool
  soundEnabled :: bool
  snackbarOpen :: bool
  snackbarMessage :: string
  snackbarSeverity :: severity
  ls_layout_notifications :: "stored_notification list option"
  ls_fetched_notification_ids :: "string list option"
  ws_present :: bool
  popups_opened :: "(string \<times> severity) list"
  sounds_played :: nat
  ws_sent :: "popup_delivered list"
  dispatched :: "request list"
  api_calls :: "api_call list"

definition unread_count :: "stored_notification list \<Rightarrow> nat" where
  "unread_count ns = length (filter (\<lambda>n. \<not> read n) ns)"

text \<open>
  \<^verbatim>\<open>playNotificationSound\<close>: plays when the sound preference is on. A listener
  or a function created in a render sees the \<^verbatim>\<open>soundEnabled\<close> of that render;
  the push listener and the polling function are those of the render in which
  the effect last ran (its dependencies are \<^verbatim>\<open>user\<close>, \<^verbatim>\<open>realTimeUpdates\<close> and
  \<^verbatim>\<open>ws\<close>), so the value they see is an argument, \<open>sound\<close>, and not the current
  state.
\<close>

definition playNotificationSound :: "bool \<Rightarrow> layout_state \<Rightarrow> layout_state" where
  "playNotificationSound sound s =
     (if sound then s\<lparr>sounds_played := sounds_played s + 1\<rparr> else s)"

text \<open>The three snackbar setters, which open a transient popup.\<close>

definition open_snackbar :: "string \<Rightarrow> severity \<Rightarrow> layout_state \<Rightarrow> layout_state" where
  "open_snackbar m sev s =
     s\<lparr>snackbarMessage := m, snackbarSeverity := sev, snackbarOpen := True,
       popups_opened := popups_opened s @ [(m, sev)]\<rparr>"

text \<open>
  \<^verbatim>\<open>data.message_id || `${data.type}_${data.timestamp || Date.now()}`\<close>
\<close>

definition messageId_of :: "nat \<Rightarrow> wire_event \<Rightarrow> string" where
  "messageId_of now d =
     (if truthy_str (data_message_id d) then the (data_message_id d)
      else data_type d @ ''_'' @
           (if truthy_str (data_timestamp d) then the (data_timestamp d)
            else string_of_nat now))"

definition bellNotification :: "nat \<Rightarrow> wire_event \<Rightarrow> string \<Rightarrow> stored_notification" where
  "bellNotification now d msg =
     \<lparr>nid = ''bell_'' @ messageId_of now d,
      title = data_title d,
      message = replace_pr msg,
      ntype = (if data_notification_type d = ''success'' then Success
               else if data_notification_type d = ''error'' then Error else Info),
      timestamp = int now,
      read = False,
      deployment_details =
        Some (if truthy_str (data_data d) then the (data_data d) else ''{}'')\<rparr>"

text \<open>
  The test inside \<^verbatim>\<open>prev.some(...)\<close> of the push handler: same title and
  message within 10 seconds, or the stored id contains the second
  \<^verbatim>\<open>_\<close>-separated piece of the message id.
\<close>

definition push_duplicate_of :: "string \<Rightarrow> stored_notification \<Rightarrow> stored_notification \<Rightarrow> bool" where
  "push_duplicate_of messageId bell n =
     (let sameContent = (title n = title bell \<and> message n = message bell);
          recentTime = (\<bar>timestamp n - timestamp bell\<bar> < 10000);
          sameId = (messageId \<noteq> [] \<and>
                    js_includes (nid n) (to_str (index (split_on CHR ''_'' messageId) 1)))
      in (sameContent \<and> recentTime) \<or> sameId)"

text \<open>The updater passed to \<^verbatim>\<open>setStoredNotifications\<close> by the push handler.\<close>

definition push_merge :: "string \<Rightarrow> stored_notification \<Rightarrow> layout_state \<Rightarrow> layout_state" where
  "push_merge messageId bell s =
     (let prev = storedNotifications s
      in if list_ex (push_duplicate_of messageId bell) prev then s
         else (let updated = take 15 (bell # prev)
               in s\<lparr>storedNotifications := updated,
                     notificationCount := unread_count updated,
                     ls_layout_notifications := Some updated\<rparr>))"

text \<open>
  \<^verbatim>\<open>handleWebSocketMessage\<close>. Reading a field of a missing \<^verbatim>\<open>data.popup\<close> or
  calling \<^verbatim>\<open>replace\<close> on a missing \<^verbatim>\<open>data.message\<close> throws before any state is
  touched, and the handler ends there.
\<close>

definition handleWebSocketMessage ::
  "nat \<Rightarrow> bool \<Rightarrow> wire_event \<Rightarrow> layout_state \<Rightarrow> layout_state" where
  "handleWebSocketMessage now sound d s =
     (let messageId = messageId_of now d
      in if data_type d = ''popup_notification'' then
           (case data_popup d of
              None \<Rightarrow> s
            | Some p \<Rightarrow>
                (let s1 = open_snackbar (popup_message p)
                            (case popup_type p of None \<Rightarrow> Info | Some t \<Rightarrow> t) s;
                     s2 = (if sound then playNotificationSound sound s1 else s1)
                 in if ws_present s2
                    then s2\<lparr>ws_sent := ws_sent s2 @
                            [\<lparr>ack_popup_id = popup_id p, ack_message_id = messageId,
                              ack_timestamp = now\<rparr>]\<rparr>
                    else s2))
         else if data_type d = ''notification'' then
           (case data_message d of
              None \<Rightarrow> s
            | Some msg \<Rightarrow> push_merge messageId (bellNotification now d msg) s)
         else if data_type d = ''request_update'' then
           (case data_request d of
              None \<Rightarrow> s
            | Some r \<Rightarrow> s\<lparr>dispatched := dispatched s @ [r]\<rparr>)
         else s)"

text \<open>A notification as \<^verbatim>\<open>GET /api/notifications\<close> returns it; \<open>created_at\<close> is the
  time \<^verbatim>\<open>new Date(n.created_at + 'Z')\<close> denotes, in milliseconds.\<close>

record db_notification =
  db_id :: string
  db_title :: string
  db_message :: string
  db_status :: string
  created_at :: int
  is_read :: bool
  db_deployment_details :: "string option"

definition convertedNotification :: "db_notification \<Rightarrow> stored_notification" where
  "convertedNotification n =
     \<lparr>nid = ''db_'' @ db_id n,
      title = db_title n,
      message = db_message n,
      ntype = (if db_status n = ''deployed'' then Success
               else if db_status n = ''failed'' then Error else Info),
      timestamp = created_at n,
      read = False,
      deployment_details = db_deployment_details n\<rparr>"

text \<open>The test inside \<^verbatim>\<open>some(...)\<close> of the poll path: same title and message
  within 30 seconds.\<close>

definition poll_duplicate_of :: "stored_notification \<Rightarrow> stored_notification \<Rightarrow> bool" where
  "poll_duplicate_of newNotif existingNotif =
     (title existingNotif = title newNotif \<and>
      message existingNotif = message newNotif \<and>
      \<bar>timestamp existingNotif - timestamp newNotif\<bar> < 30000)"

definition uniqueNew :: "stored_notification list \<Rightarrow> stored_notification list \<Rightarrow> stored_notification list" where
  "uniqueNew existing converted =
     filter (\<lambda>newNotif. \<not> list_ex (poll_duplicate_of newNotif) existing) converted"

text \<open>The items of the response that are less than two hours old, unread and
  not in the imported-id list.\<close>

definition newNotifications :: "nat \<Rightarrow> string list \<Rightarrow> db_notification list \<Rightarrow> db_notification list" where
  "newNotifications now fetchedIds dbNotifications =
     filter (\<lambda>n. int now - 2 * 60 * 60 * 1000 < created_at n \<and> \<not> is_read n \<and>
                 db_id n \<notin> set fetchedIds) dbNotifications"

text \<open>The updater passed to \<^verbatim>\<open>setStoredNotifications\<close> by the poll path.\<close>

definition poll_merge :: "stored_notification list \<Rightarrow> layout_state \<Rightarrow> layout_state" where
  "poll_merge converted s =
     (let prev = storedNotifications s;
          uniq = uniqueNew prev converted
      in if length uniq = 0 then s
         else (let updated = take 20 (uniq @ prev)
               in s\<lparr>storedNotifications := updated,
                     notificationCount := unread_count updated,
                     ls_layout_notifications := Some updated\<rparr>))"

text \<open>
  \<^verbatim>\<open>fetchOfflineNotifications\<close>, from the point where the request has
  returned. \<open>response\<close> is \<open>None\<close> when the request failed (the \<^verbatim>\<open>catch\<close>
  swallows it). \<open>snapshot\<close> is the \<^verbatim>\<open>storedNotifications\<close> value the function
  closed over when it was created, and \<open>sound\<close> the \<^verbatim>\<open>soundEnabled\<close> value it closed
  over; the updater reads the current state.
\<close>

definition fetchOfflineNotifications ::
  "nat \<Rightarrow> bool \<Rightarrow> stored_notification list \<Rightarrow> db_notification list option \<Rightarrow>
   layout_state \<Rightarrow> layout_state" where
  "fetchOfflineNotifications now sound snapshot response s =
     (case response of
        None \<Rightarrow> s
      | Some dbNotifications \<Rightarrow>
          (let fetchedIds = (case ls_fetched_notification_ids s of None \<Rightarrow> [] | Some ids \<Rightarrow> ids);
               new = newNotifications now fetchedIds dbNotifications
           in if length new > 0 then
                (let converted = map convertedNotification new;
                     s1 = (case uniqueNew snapshot converted of
                             [] \<Rightarrow> s
                           | newestNotification # _ \<Rightarrow>
                               (let s' = open_snackbar (message newestNotification)
                                           (ntype newestNotification) s
                                in if sound then playNotificationSound sound s' else s'));
                     s2 = poll_merge converted s1
                 in s2\<lparr>ls_fetched_notification_ids := Some (fetchedIds @ map db_id new)\<rparr>)
              else s))"

subsection \<open>Acknowledging and clearing notifications\<close>

text \<open>
  The state of the promise returned by an HTTP call, as the handler that
  awaits it observes it: still in flight, fulfilled or rejected. A handler
  applied to \<open>Pending\<close> gives the state while it is suspended at the
  \<^verbatim>\<open>await\<close>.
\<close>

datatype remote = Pending | Resolved | Rejected

text \<open>\<^verbatim>\<open>markNotificationAsRead\<close>. A rejected call is logged and nothing else;
  \<^verbatim>\<open>id.replace('db_', '')\<close> on an id that starts with \<^verbatim>\<open>db_\<close> drops these three
  characters.\<close>

definition markNotificationAsRead :: "remote \<Rightarrow> string \<Rightarrow> layout_state \<Rightarrow> layout_state" where
  "markNotificationAsRead outcome i s =
     (let updatedNotifications =
            map (\<lambda>n. if nid n = i then n\<lparr>read := True\<rparr> else n) (storedNotifications s);
          s1 = s\<lparr>storedNotifications := updatedNotifications,
                 notificationCount := unread_count updatedNotifications,
                 ls_layout_notifications := Some updatedNotifications\<rparr>
      in if startsWith i ''db_''
         then s1\<lparr>api_calls := api_calls s1 @ [MarkAsRead (drop 3 i)]\<rparr>
         else s1)"

text \<open>\<^verbatim>\<open>markAllNotificationsAsRead\<close>: the menu is closed after the \<^verbatim>\<open>await\<close>.\<close>

definition markAllNotificationsAsRead :: "remote \<Rightarrow> layout_state \<Rightarrow> layout_state" where
  "markAllNotificationsAsRead outcome s =
     (let updatedNotifications = map (\<lambda>n. n\<lparr>read := True\<rparr>) (storedNotifications s);
          s1 = s\<lparr>ls_layout_notifications := Some updatedNotifications,
                 storedNotifications := updatedNotifications,
                 notificationCount := 0,
                 api_calls := api_calls s @ [MarkAllAsRead]\<rparr>
      in if outcome = Pending then s1 else s1\<lparr>notificationAnchor := False\<rparr>)"

text \<open>\<^verbatim>\<open>clearAllNotifications\<close>: the call is awaited first, inside its own
  \<^verbatim>\<open>try\<close>; the local state is cleared after it has settled.\<close>

definition clearAllNotifications :: "remote \<Rightarrow> layout_state \<Rightarrow> layout_state" where
  "clearAllNotifications outcome s =
     (let s1 = s\<lparr>api_calls := api_calls s @ [ClearAll]\<rparr>
      in if outcome = Pending then s1
         else s1\<lparr>ls_layout_notifications := None,
                 ls_fetched_notification_ids := None,
                 storedNotifications := [],
                 notificationCount := 0,
                 notificationAnchor := False\<rparr>)"

subsection \<open>The polling schedule\<close>

text \<open>
  The effect that sets the component up, and the browser events that reach a
  listener it registers: it loads the stored list, runs the poller once,
  listens to \<^verbatim>\<open>storage\<close> events and starts an interval of \<open>pollDelay\<close>
  milliseconds whose callback runs the poller when real-time updates are on
  and \<^verbatim>\<open>document.visibilityState\<close> is \<^verbatim>\<open>visible\<close>. The cleanup clears the
  interval. No listener is registered for visibility changes, so one only
  changes \<^verbatim>\<open>document.visibilityState\<close>.
\<close>

definition pollDelay :: nat where
  "pollDelay = 30000"

record page =
  visible :: bool
  realTimeUpdates :: bool
  pollInterval :: "nat option"
  fetch_calls :: nat
  load_calls :: nat
  sound_calls :: nat

datatype page_event =
    EffectRun
  | EffectCleanup
  | IntervalElapsed
  | VisibilityChange bool
  | StorageEvent string

fun page_step :: "page_event \<Rightarrow> page \<Rightarrow> page" where
  "page_step EffectRun s =
     s\<lparr>load_calls := load_calls s + 1, fetch_calls := fetch_calls s + 1,
       pollInterval := Some pollDelay\<rparr>"
| "page_step EffectCleanup s = s\<lparr>pollInterval := None\<rparr>"
| "page_step IntervalElapsed s =
     (if pollInterval s \<noteq> None \<and> realTimeUpdates s \<and> visible s
      then s\<lparr>fetch_calls := fetch_calls s + 1\<rparr> else s)"
| "page_step (VisibilityChange v) s = s\<lparr>visible := v\<rparr>"
| "page_step (StorageEvent k) s =
     (if k = ''layout_notifications''
      then s\<lparr>load_calls := load_calls s + 1, sound_calls := sound_calls s + 1\<rparr> else s)"

subsection \<open>The request cache (Dashboard)\<close>

text \<open>\<^verbatim>\<open>xs.join(',')\<close> on texts.\<close>

fun join_comma :: "string list \<Rightarrow> string" where
  "join_comma [] = []"
| "join_comma [x] = x"
| "join_comma (x # y # ys) = x @ '','' @ join_comma (y # ys)"

text \<open>The text of a value inside a template literal; in an array, \<^verbatim>\<open>null\<close>
  elements give the empty text.\<close>

fun js_string :: "jval \<Rightarrow> string" where
  "js_string JNull = ''null''"
| "js_string (JBool b) = (if b then ''true'' else ''false'')"
| "js_string (JNum t) = t"
| "js_string (JStr t) = t"
| "js_string (JArr xs) = join_comma (map (\<lambda>x. if x = JNull then [] else js_string x) xs)"
| "js_string (JObj fs) = ''[object Object]''"

definition field_text :: "jval option \<Rightarrow> string" where
  "field_text v = (case v of None \<Rightarrow> ''undefined'' | Some x \<Rightarrow> js_string x)"

text \<open>
  \<^verbatim>\<open>{ ...req, ...upd }\<close>: the fields of \<open>upd\<close> are written into \<open>req\<close> in their
  order, an existing field keeping its place and a new one going to the end.
  (Field names are not array indices, which JavaScript would order first.)
\<close>

definition spread :: "request \<Rightarrow> request \<Rightarrow> request" where
  "spread req upd = fold (\<lambda>(k, v). AList.update k v) upd req"

text \<open>
  The dashboard: the \<^verbatim>\<open>requests\<close> state, the \<^verbatim>\<open>processedUpdates\<close> set in
  insertion order, the \<^verbatim>\<open>dashboard_requests\<close> entry of \<^verbatim>\<open>localStorage\<close> and the
  time of the last update.
\<close>

record dashboard_state =
  requests :: "request list"
  processedUpdates :: "string list"
  ls_dashboard_requests :: "request list option"
  lastUpdateTime :: nat

text \<open>
  \<^verbatim>\<open>req.request_identifier === updatedRequest.request_identifier\<close>: both
  missing, or the same value (identifiers are strings in the \<^verbatim>\<open>Request\<close>
  interface; equality of values is exact for strings, numbers, booleans and
  \<^verbatim>\<open>null\<close>).
\<close>

definition same_request :: "request \<Rightarrow> request \<Rightarrow> bool" where
  "same_request req updatedRequest =
     (map_of req ''request_identifier'' = map_of updatedRequest ''request_identifier'')"

text \<open>The updater passed to \<^verbatim>\<open>setRequests\<close>.\<close>

definition applyDelta :: "request \<Rightarrow> request list \<Rightarrow> request list" where
  "applyDelta updatedRequest prevRequests =
     (let updated = map (\<lambda>req. if same_request req updatedRequest
                               then spread req updatedRequest else req) prevRequests;
          exists = list_ex (\<lambda>req. same_request req updatedRequest) prevRequests
      in if \<not> exists then updatedRequest # updated else updated)"

text \<open>\<^verbatim>\<open>`${request_identifier}_${status}_${Date.now()}`\<close>\<close>

definition updateId_of :: "nat \<Rightarrow> request \<Rightarrow> string" where
  "updateId_of now updatedRequest =
     field_text (map_of updatedRequest ''request_identifier'') @ ''_'' @
     field_text (map_of updatedRequest ''status'') @ ''_'' @ string_of_nat now"

text \<open>\<^verbatim>\<open>handleRequestUpdate\<close>, with \<^verbatim>\<open>event.detail\<close> as \<open>updatedRequest\<close>. When the
  set has grown past 50 ids the last 25 are kept.\<close>

definition handleRequestUpdate :: "nat \<Rightarrow> request \<Rightarrow> dashboard_state \<Rightarrow> dashboard_state" where
  "handleRequestUpdate now updatedRequest s =
     (let updateId = updateId_of now updatedRequest
      in if updateId \<in> set (processedUpdates s) then s
         else (let ids = processedUpdates s @ [updateId];
                   processed = (if length ids > 50 then drop (length ids - 25) ids else ids);
                   result = applyDelta updatedRequest (requests s)
               in s\<lparr>processedUpdates := processed,
                     requests := result,
                     ls_dashboard_requests := Some result,
                     lastUpdateTime := now\<rparr>))"

subsection \<open>The conversation (Chat)\<close>

datatype sender = User | Bot | System

text \<open>\<^verbatim>\<open>Message\<close>; the content is missing when the payload had no \<^verbatim>\<open>message\<close>.\<close>

record chat_message =
  msg_id :: string
  msg_type :: sender
  content :: "string option"
  msg_timestamp :: int
  buttons :: "button_option list option"

text \<open>
  A value kept in \<^verbatim>\<open>sessionStorage\<close>: a plain string, or the JSON text of a
  message array (the only JSON the component writes there). A string under a
  key read with \<^verbatim>\<open>JSON.parse\<close> stands for a text that does not parse to an
  array.
\<close>

datatype sval = Str string | Msgs "chat_message list"

definition truthy_sval :: "sval option \<Rightarrow> bool" where
  "truthy_sval v = (case v of None \<Rightarrow> False | Some (Str t) \<Rightarrow> t \<noteq> [] | Some (Msgs ms) \<Rightarrow> True)"

record user_profile =
  user_id :: string
  user_name :: string

datatype chat_callback = AddWelcomeMessage | RefreshUser | ShowChatCleared

text \<open>The \<^verbatim>\<open>clear_conversation\<close> message sent on the socket: the conversation key
  and the time.\<close>

datatype client_message = ClearConversation string nat

text \<open>
  The conversation component: its React state, the \<^verbatim>\<open>conversationKeyRef\<close> and
  \<^verbatim>\<open>processedMessages\<close> refs (the set in insertion order),
  \<^verbatim>\<open>sessionStorage\<close> by key, the \<^verbatim>\<open>login_time\<close> and \<^verbatim>\<open>layout_notifications\<close>
  entries of \<^verbatim>\<open>localStorage\<close>, the timeouts requested (delay and callback), the
  messages sent on the socket, and the number of times the line
  \<^verbatim>\<open>Chat: Welcome message added\<close> was logged.
\<close>

record chat_state =
  messages :: "chat_message list"
  processing :: bool
  showTextInput :: bool
  greetingShown :: bool
  conversationKey :: string
  processedMessages :: "string list"
  sessionStorage :: "string \<Rightarrow> sval option"
  login_time :: "string option"
  chat_layout_notifications :: "stored_notification list option"
  chat_timeouts :: "(nat \<times> chat_callback) list"
  chat_sent :: "client_message list"
  welcome_added :: nat

text \<open>\<^verbatim>\<open>initializeNewConversation\<close>\<close>

definition initializeNewConversation :: "nat \<Rightarrow> user_profile \<Rightarrow> chat_state \<Rightarrow> chat_state" where
  "initializeNewConversation now u s =
     s\<lparr>conversationKey := ''chat_'' @ user_id u @ ''_'' @ string_of_nat now,
       messages := [],
       greetingShown := False,
       sessionStorage := (sessionStorage s)
         (''chat_messages_'' @ user_id u := None, ''chat_key_'' @ user_id u := None)\<rparr>"

text \<open>
  The effect on \<^verbatim>\<open>user?.id\<close> (the resume): nothing without a user id; the
  saved conversation is restored when the session marker equals the login
  time (two missing values are equal) and a key and a non-empty message
  array are saved; otherwise a new conversation starts, the marker is set and
  \<^verbatim>\<open>addWelcomeMessage\<close> is requested after 500 ms.
\<close>

definition resume_effect :: "nat \<Rightarrow> user_profile option \<Rightarrow> chat_state \<Rightarrow> chat_state" where
  "resume_effect now usr s =
     (case usr of
        None \<Rightarrow> s
      | Some u \<Rightarrow>
          if user_id u = [] then s
          else
            (let currentLoginTime = login_time s;
                 lastChatSession = sessionStorage s (''chat_session_'' @ user_id u);
                 fresh =
                   (let s1 = initializeNewConversation now u s;
                        s2 = (if truthy_str currentLoginTime
                              then s1\<lparr>sessionStorage := (sessionStorage s1)
                                     (''chat_session_'' @ user_id u \<mapsto> Str (the currentLoginTime))\<rparr>
                              else s1)
                    in s2\<lparr>chat_timeouts := chat_timeouts s2 @ [(500, AddWelcomeMessage)]\<rparr>)
             in if lastChatSession = map_option Str currentLoginTime then
                  (case (sessionStorage s (''chat_key_'' @ user_id u),
                         sessionStorage s (''chat_messages_'' @ user_id u)) of
                     (Some (Str existingKey), Some (Msgs parsed)) \<Rightarrow>
                       if existingKey \<noteq> [] \<and> length parsed > 0
                       then s\<lparr>conversationKey := existingKey, messages := parsed,
                              greetingShown := True\<rparr>
                       else fresh
                   | _ \<Rightarrow> fresh)
                else fresh))"

definition welcome_text :: "user_profile \<Rightarrow> string" where
  "welcome_text u =
     ''Hi '' @ (if user_name u = [] then ''there'' else user_name u) @ ''! '' @
     [CHR 0xF0, CHR 0x9F, CHR 0x91, CHR 0x8B] @
     '' Welcome to the Infrastructure Assistant! I'm here to help you create and manage AWS resources. What would you like to deploy today?''"

text \<open>\<^verbatim>\<open>`greeting_shown_${user?.id}`\<close>\<close>

definition greetingKey :: "user_profile \<Rightarrow> string" where
  "greetingKey u = ''greeting_shown_'' @ user_id u"

text \<open>\<^verbatim>\<open>addWelcomeMessage\<close>, for the user of the effect that requested it.\<close>

definition addWelcomeMessage :: "nat \<Rightarrow> user_profile \<Rightarrow> chat_state \<Rightarrow> chat_state" where
  "addWelcomeMessage now u s =
     (let greetingShownInSession = sessionStorage s (greetingKey u)
      in if \<not> truthy_sval greetingShownInSession
         then s\<lparr>messages := [\<lparr>msg_id = ''welcome'', msg_type = Bot,
                               content = Some (welcome_text u), msg_timestamp = int now,
                               buttons = None\<rparr>],
                greetingShown := True,
                sessionStorage := (sessionStorage s)(greetingKey u \<mapsto> Str ''true''),
                welcome_added := welcome_added s + 1\<rparr>
         else s)"

text \<open>
  \<^verbatim>\<open>clearChat\<close>, with the \<^verbatim>\<open>connected\<close> value of the socket context as \<open>conn\<close>:
  nothing while a reply is awaited; otherwise the conversation is emptied
  under a new key, the greeting flag, the saved history and the saved key of
  the user are removed from \<^verbatim>\<open>sessionStorage\<close>, the backend is told when
  connected, and the \<^verbatim>\<open>Chat cleared!\<close> message is requested after 500 ms.
\<close>

definition clearChat :: "nat \<Rightarrow> bool \<Rightarrow> user_profile option \<Rightarrow> chat_state \<Rightarrow> chat_state" where
  "clearChat now conn usr s =
     (if processing s then s
      else
        (let key = ''chat_'' @ to_str (map_option user_id usr) @ ''_'' @ string_of_nat now;
             s1 = s\<lparr>processedMessages := [], conversationKey := key, messages := [],
                    greetingShown := False, showTextInput := True\<rparr>;
             s2 = (case usr of
                     None \<Rightarrow> s1
                   | Some u \<Rightarrow>
                       if user_id u = [] then s1
                       else s1\<lparr>sessionStorage := (sessionStorage s1)
                              (greetingKey u := None,
                               ''chat_messages_'' @ user_id u := None,
                               ''chat_key_'' @ user_id u := None)\<rparr>);
             s3 = (if conn then s2\<lparr>chat_sent := chat_sent s2 @ [ClearConversation key now]\<rparr>
                   else s2)
         in s3\<lparr>chat_timeouts := chat_timeouts s3 @ [(500, ShowChatCleared)]\<rparr>))"

text \<open>The callback of that timeout.\<close>

definition showChatCleared :: "nat \<Rightarrow> chat_state \<Rightarrow> chat_state" where
  "showChatCleared now s =
     s\<lparr>messages := [\<lparr>msg_id = ''welcome_'' @ string_of_nat now, msg_type = Bot,
                        content = Some ''Chat cleared! I'm ready to help you create new infrastructure. What would you like to build?'',
                        msg_timestamp = int now, buttons = None\<rparr>]\<rparr>"

text \<open>
  What \<^verbatim>\<open>logout\<close> of the authentication context does to the storage the
  conversation reads: \<^verbatim>\<open>login_time\<close> is removed and \<^verbatim>\<open>sessionStorage\<close> is
  cleared.
\<close>

definition logout :: "chat_state \<Rightarrow> chat_state" where
  "logout s = s\<lparr>login_time := None, sessionStorage := (\<lambda>k. None)\<rparr>"

text \<open>
  What can happen to the conversation of one user inside a browser session:
  the resume effect runs (navigation, reload), a requested welcome timeout
  fires, a new login stores a new \<^verbatim>\<open>login_time\<close> (\<^verbatim>\<open>verifyOTP\<close>), the user
  clears the chat, the \<^verbatim>\<open>Chat cleared!\<close> timeout fires, or the user logs out.
\<close>

datatype chat_event =
    ResumeEffect nat
  | WelcomeTimeout nat
  | NewLogin string
  | ClearChat nat bool
  | ChatClearedTimeout nat
  | Logout

fun chat_step :: "user_profile \<Rightarrow> chat_event \<Rightarrow> chat_state \<Rightarrow> chat_state" where
  "chat_step u (ResumeEffect now) s = resume_effect now (Some u) s"
| "chat_step u (WelcomeTimeout now) s = addWelcomeMessage now u s"
| "chat_step u (NewLogin t) s = s\<lparr>login_time := Some t\<rparr>"
| "chat_step u (ClearChat now conn) s = clearChat now conn (Some u) s"
| "chat_step u (ChatClearedTimeout now) s = showChatCleared now s"
| "chat_step u Logout s = logout s"

text \<open>The events that are a clear of the chat or a logout.\<close>

fun clears_or_logs_out :: "chat_event \<Rightarrow> bool" where
  "clears_or_logs_out (ClearChat now conn) = True"
| "clears_or_logs_out Logout = True"
| "clears_or_logs_out ev = False"

text \<open>What a step can still add: one greeting while the flag is unset.\<close>

definition greeting_budget :: "user_profile \<Rightarrow> chat_state \<Rightarrow> nat" where
  "greeting_budget u s = (if truthy_sval (sessionStorage s (greetingKey u)) then 0 else 1)"





subsection \<open>Occurrences of the pattern\<close>

text \<open>An occurrence of \<^verbatim>\<open>PR #\<close> followed by a digit, anywhere in the string.\<close>

fun contains_pr :: "string \<Rightarrow> bool" where
  "contains_pr [] = False"
| "contains_pr (c # cs) = (pr_at (c # cs) \<or> contains_pr cs)"

subsection \<open>Sample data\<close>

text \<open>Concrete states, events and notifications on which the properties are
  evaluated.\<close>

definition empty_layout :: layout_state where
  "empty_layout =
     \<lparr>storedNotifications = [], notificationCount = 0, notificationAnchor = False,
      soundEnabled = True, snackbarOpen = False, snackbarMessage = [], snackbarSeverity = Info,
      ls_layout_notifications = None, ls_fetched_notification_ids = None, ws_present = True,
      popups_opened = [], sounds_played = 0, ws_sent = [], dispatched = [], api_calls = []\<rparr>"

definition deploy_event :: wire_event where
  "deploy_event =
     \<lparr>data_type = ''notification'', data_message_id = Some ''m1'', data_timestamp = None,
      data_popup = None, data_title = ''Deploy'', data_message = Some ''PR #5 done'',
      data_notification_type = ''success'', data_data = None, data_request = None,
      data_buttons = None, data_show_text_input = None, data_greeting = False,
      data_approved = False\<rparr>"

definition deploy_bell :: "int \<Rightarrow> stored_notification" where
  "deploy_bell t =
     \<lparr>nid = ''bell_m1'', title = ''Deploy'', message = ''Pull Request done'', ntype = Success,
      timestamp = t, read = False, deployment_details = Some ''{}''\<rparr>"

definition with_store :: "stored_notification list \<Rightarrow> layout_state" where
  "with_store ns = empty_layout\<lparr>storedNotifications := ns\<rparr>"

definition polled :: "string \<Rightarrow> string \<Rightarrow> string \<Rightarrow> int \<Rightarrow> db_notification" where
  "polled i t m c =
     \<lparr>db_id = i, db_title = t, db_message = m, db_status = ''pending'', created_at = c,
      is_read = False, db_deployment_details = None\<rparr>"

definition build_notification :: "nat \<Rightarrow> stored_notification" where
  "build_notification i =
     \<lparr>nid = ''bell_build_'' @ string_of_nat i, title = ''Build '' @ string_of_nat i,
      message = ''finished'', ntype = Info, timestamp = 1000 + int i, read = False,
      deployment_details = None\<rparr>"

definition build_event :: wire_event where
  "build_event =
     \<lparr>data_type = ''notification'', data_message_id = Some ''m1'', data_timestamp = None,
      data_popup = None, data_title = ''Build 3'', data_message = Some ''finished'',
      data_notification_type = ''info'', data_data = None, data_request = None,
      data_buttons = None, data_show_text_input = None, data_greeting = False,
      data_approved = False\<rparr>"

definition push_entry :: stored_notification where
  "push_entry =
     \<lparr>nid = ''bell_m1'', title = ''Deploy'', message = ''done'', ntype = Success,
      timestamp = 1000, read = False, deployment_details = Some ''{}''\<rparr>"

definition scenario_response :: "db_notification list" where
  "scenario_response =
     [polled ''3'' ''Scale'' ''scaled'' 25000,
      polled ''2'' ''Deploy'' ''done'' 20000,
      polled ''1'' ''Backup'' ''ok'' 5000]"


definition hidden_page :: page where
  "hidden_page =
     \<lparr>visible = False, realTimeUpdates = True, pollInterval = Some pollDelay, fetch_calls = 1,
      load_calls = 1, sound_calls = 0\<rparr>"

definition pending_delta :: request where
  "pending_delta = [(''request_identifier'', JStr ''req-1''), (''status'', JStr ''pending'')]"

definition deployed_delta :: request where
  "deployed_delta =
     [(''request_identifier'', JStr ''req-1''), (''status'', JStr ''deployed''),
      (''resources'', JObj [(''instance_id'', JStr ''i-1'')])]"

definition empty_dashboard :: dashboard_state where
  "empty_dashboard =
     \<lparr>requests = [], processedUpdates = [], ls_dashboard_requests = None, lastUpdateTime = 0\<rparr>"

definition empty_chat :: chat_state where
  "empty_chat =
     \<lparr>messages = [], processing = False, showTextInput = True, greetingShown = False,
      conversationKey = [], processedMessages = [], sessionStorage = (\<lambda>k. None),
      login_time = Some ''1700000000000'', chat_layout_notifications = None, chat_timeouts = [],
      chat_sent = [], welcome_added = 0\<rparr>"

definition alice :: user_profile where
  "alice = \<lparr>user_id = ''u1'', user_name = ''Alice''\<rparr>"



definition tagged_deploy_event :: wire_event where
  "tagged_deploy_event = deploy_event\<lparr>data_message_id := Some ''dep_42''\<rparr>"

text \<open>
  The retention policy in the words of the specification: every candidate that
  was not kept is at most as recent, by creation time, as every item kept.
\<close>

definition spec_retains_most_recent ::
  "stored_notification list \<Rightarrow> stored_notification list \<Rightarrow> bool" where
  "spec_retains_most_recent candidates kept =
     list_all (\<lambda>dropped. list_all (\<lambda>k. timestamp dropped \<le> timestamp k) kept)
       (filter (\<lambda>c. c \<notin> set kept) candidates)"

section \<open>Properties\<close>

subsection \<open>Reconnect scheduling on close\<close>

text \<open>
  C3. A close with one of the codes 1000 (normal closure), 1001 (going away),
  1005 (no status) or 1012 (the reload code) requests no timeout. A close with
  any other code, while the user is present and a token is stored, requests
  exactly one timeout, of 1000 ms, whose callback reconnects; without a user
  or a token nothing is requested. The socket state is cleared in every case.
\<close>

theorem onclose_reconnect_schedule:
  "(code \<in> {1000, 1001, 1005, 1012} \<longrightarrow> timeouts (onclose code s) = timeouts s) \<and>
   (code \<notin> {1000, 1001, 1005, 1012} \<and> user s \<noteq> None \<and> truthy_str (token s) \<longrightarrow>
      timeouts (onclose code s) = timeouts s @ [(1000, ConnectWebSocket)]) \<and>
   (user s = None \<or> \<not> truthy_str (token s) \<longrightarrow> timeouts (onclose code s) = timeouts s) \<and>
   \<not> connected (onclose code s) \<and> ws (onclose code s) = None"
  by (auto simp: onclose_def Let_def)

theorem onclose_reconnect_schedule_witness:
  "timeouts (onclose 1000 \<lparr>ws = Some 0, connected = True, wsRef = Some 0,
       reconnectTimeoutRef = None, user = Some ''u1'', token = Some ''jwt'', timeouts = []\<rparr>) = [] \<and>
   timeouts (onclose 1006 \<lparr>ws = Some 0, connected = True, wsRef = Some 0,
       reconnectTimeoutRef = None, user = Some ''u1'', token = Some ''jwt'', timeouts = []\<rparr>)
     = [(1000, ConnectWebSocket)]"
  using onclose_reconnect_schedule [of 1000 "\<lparr>ws = Some 0, connected = True, wsRef = Some 0,
       reconnectTimeoutRef = None, user = Some ''u1'', token = Some ''jwt'', timeouts = []\<rparr>"]
    onclose_reconnect_schedule [of 1006 "\<lparr>ws = Some 0, connected = True, wsRef = Some 0,
       reconnectTimeoutRef = None, user = Some ''u1'', token = Some ''jwt'', timeouts = []\<rparr>"]
  by (simp add: truthy_str_def)

subsection \<open>String replacement\<close>

lemma replace_pr_head:
  assumes "replace_pr s = x # r" and "x \<noteq> CHR ''P''"
  shows "\<exists>t. s = x # t \<and> r = replace_pr t"
proof (cases s)
  case Nil
  with assms show ?thesis by simp
next
  case (Cons c cs)
  show ?thesis
  proof (cases "pr_at (c # cs)")
    case True
    with assms Cons show ?thesis by simp
  next
    case False
    with assms Cons show ?thesis by simp
  qed
qed

lemma is_digit_not_P: "is_digit d \<Longrightarrow> d \<noteq> CHR ''P''"
  by (auto simp: is_digit_def)

lemma startsWith_Cons: "startsWith s (p # ps) \<longleftrightarrow> (\<exists>t. s = p # t \<and> startsWith t ps)"
  by (cases s) auto

lemma pr_at_shape:
  "pr_at s \<longleftrightarrow> (\<exists>d t. s = CHR ''P'' # CHR ''R'' # CHR '' '' # CHR ''#'' # d # t \<and> is_digit d)"
  unfolding pr_at_def by (auto simp: startsWith_Cons split: list.splits)

lemma pr_at_after_replace:
  assumes "\<not> pr_at (c # cs)"
  shows "\<not> pr_at (c # replace_pr cs)"
proof
  assume "pr_at (c # replace_pr cs)"
  then obtain d t where c: "c = CHR ''P''"
    and r: "replace_pr cs = CHR ''R'' # CHR '' '' # CHR ''#'' # d # t" and d: "is_digit d"
    unfolding pr_at_shape by auto
  from replace_pr_head [OF r] obtain t1 where t1: "cs = CHR ''R'' # t1"
    "CHR '' '' # CHR ''#'' # d # t = replace_pr t1" by auto
  from replace_pr_head [OF t1(2) [symmetric]] obtain t2 where t2: "t1 = CHR '' '' # t2"
    "CHR ''#'' # d # t = replace_pr t2" by auto
  from replace_pr_head [OF t2(2) [symmetric]] obtain t3 where t3: "t2 = CHR ''#'' # t3"
    "d # t = replace_pr t3" by auto
  from replace_pr_head [OF t3(2) [symmetric] is_digit_not_P [OF d]] obtain t4 where
    t4: "t3 = d # t4" by auto
  from c t1 t2 t3 t4 d have "pr_at (c # cs)" unfolding pr_at_shape by simp
  with assms show False by simp
qed

lemma contains_pr_Pull_Request: "contains_pr (''Pull Request'' @ r) = contains_pr r"
  by (simp add: pr_at_def)

lemma replace_pr_removes_all: "\<not> contains_pr (replace_pr s)"
proof (induction s rule: replace_pr.induct)
  case 1
  then show ?case by simp
next
  case (2 c cs)
  show ?case
  proof (cases "pr_at (c # cs)")
    case True
    then have e: "replace_pr (c # cs) =
        ''Pull Request'' @ replace_pr (dropWhile is_digit (drop 4 (c # cs)))"
      by (simp only: replace_pr.simps if_True)
    show ?thesis
      unfolding e contains_pr_Pull_Request using 2(1) [OF True] .
  next
    case False
    with 2 pr_at_after_replace [OF False] show ?thesis by simp
  qed
qed

lemma replace_pr_unchanged: "\<not> contains_pr s \<Longrightarrow> replace_pr s = s"
  by (induction s) auto


lemma pr_at_append_P:
  "\<not> pr_at (c # a) \<Longrightarrow> \<not> pr_at (c # a @ CHR ''P'' # r)"
proof
  assume n: "\<not> pr_at (c # a)" and "pr_at (c # a @ CHR ''P'' # r)"
  then obtain d t where e: "c # a @ CHR ''P'' # r = CHR ''P'' # CHR ''R'' # CHR '' '' # CHR ''#'' # d # t"
    and d: "is_digit d"
    unfolding pr_at_shape by auto
  from d have dP: "d \<noteq> CHR ''P''" by (rule is_digit_not_P)
  from e dP obtain t' where "a = CHR ''R'' # CHR '' '' # CHR ''#'' # d # t'"
    by (auto simp: append_eq_Cons_conv)
  with e d have "pr_at (c # a)" unfolding pr_at_shape by auto
  with n show False by simp
qed

lemma replace_pr_before_P:
  "\<not> contains_pr a \<Longrightarrow> replace_pr (a @ CHR ''P'' # r) = a @ replace_pr (CHR ''P'' # r)"
proof (induction a)
  case Nil
  then show ?case by simp
next
  case (Cons c a)
  then have "\<not> pr_at (c # a)" and "\<not> contains_pr a" by simp_all
  with Cons.IH pr_at_append_P [of c a r] show ?case by simp
qed

lemma dropWhile_digits:
  "list_all is_digit ds \<Longrightarrow> b = [] \<or> \<not> is_digit (hd b) \<Longrightarrow> dropWhile is_digit (ds @ b) = b"
  by (induction ds) (auto simp: dropWhile_eq_self_iff)

lemma replace_pr_match:
  assumes "ds \<noteq> []" and "list_all is_digit ds" and "b = [] \<or> \<not> is_digit (hd b)"
  shows "replace_pr (''PR #'' @ ds @ b) = ''Pull Request'' @ replace_pr b"
proof -
  from assms(1) obtain d ds' where ds: "ds = d # ds'" by (cases ds) auto
  with assms(2) have d: "is_digit d" by simp
  then have p: "pr_at (''PR #'' @ ds @ b)" unfolding pr_at_shape by (simp add: ds)
  have "dropWhile is_digit (ds @ b) = b" using assms(2,3) by (rule dropWhile_digits)
  with p show ?thesis by simp
qed

lemma replace_pr_first_match:
  assumes "\<not> contains_pr a" and "ds \<noteq> []" and "list_all is_digit ds"
    and "b = [] \<or> \<not> is_digit (hd b)"
  shows "replace_pr (a @ ''PR #'' @ ds @ b) = a @ ''Pull Request'' @ replace_pr b"
proof -
  have "replace_pr (a @ ''PR #'' @ ds @ b) = a @ replace_pr (''PR #'' @ ds @ b)"
    using replace_pr_before_P [OF assms(1), of "''R #'' @ ds @ b"] by simp
  with replace_pr_match [OF assms(2,3,4)] show ?thesis by simp
qed

lemma pr_at_iff:
  "pr_at s \<longleftrightarrow> (\<exists>d t. s = ''PR #'' @ d # t \<and> d \<in> set ''0123456789'')"
  unfolding pr_at_shape by (simp add: is_digit_def)

lemma contains_pr_iff:
  "contains_pr s \<longleftrightarrow> (\<exists>p d t. s = p @ ''PR #'' @ d # t \<and> d \<in> set ''0123456789'')"
proof (induction s)
  case Nil
  then show ?case by simp
next
  case (Cons c cs)
  show ?case
  proof
    assume "contains_pr (c # cs)"
    then consider "pr_at (c # cs)" | "contains_pr cs" by auto
    then show "\<exists>p d t. c # cs = p @ ''PR #'' @ d # t \<and> d \<in> set ''0123456789''"
    proof cases
      case 1
      then obtain d t where "c # cs = [] @ ''PR #'' @ d # t" "d \<in> set ''0123456789''"
        unfolding pr_at_iff by auto
      then show ?thesis by blast
    next
      case 2
      with Cons.IH obtain p d t where "cs = p @ ''PR #'' @ d # t" "d \<in> set ''0123456789''"
        by auto
      then have "c # cs = (c # p) @ ''PR #'' @ d # t" by simp
      with \<open>d \<in> set ''0123456789''\<close> show ?thesis by blast
    qed
  next
    assume "\<exists>p d t. c # cs = p @ ''PR #'' @ d # t \<and> d \<in> set ''0123456789''"
    then obtain p d t where e: "c # cs = p @ ''PR #'' @ d # t" and d: "d \<in> set ''0123456789''"
      by auto
    show "contains_pr (c # cs)"
    proof (cases p)
      case Nil
      with e d have "pr_at (c # cs)" unfolding pr_at_iff by auto
      then show ?thesis by simp
    next
      case (Cons x p')
      with e have "cs = p' @ ''PR #'' @ d # t" by simp
      with d Cons.IH have "contains_pr cs" by blast
      then show ?thesis by simp
    qed
  qed
qed



lemma replace_pr_first_match_explicit:
  "\<not> contains_pr a \<and> ds \<noteq> [] \<and> set ds \<subseteq> set ''0123456789'' \<and>
    (b = [] \<or> hd b \<notin> set ''0123456789'') \<longrightarrow>
      replace_pr (a @ ''PR #'' @ ds @ b) = a @ ''Pull Request'' @ replace_pr b"
proof
  assume h: "\<not> contains_pr a \<and> ds \<noteq> [] \<and> set ds \<subseteq> set ''0123456789'' \<and>
      (b = [] \<or> hd b \<notin> set ''0123456789'')"
  have d: "is_digit = (\<lambda>c. c \<in> set ''0123456789'')" by (rule ext) (simp only: is_digit_def)
  from h have "list_all is_digit ds"
    unfolding d list_all_iff by blast
  moreover from h have "b = [] \<or> \<not> is_digit (hd b)"
    unfolding d by blast
  ultimately show "replace_pr (a @ ''PR #'' @ ds @ b) = a @ ''Pull Request'' @ replace_pr b"
    using h replace_pr_first_match [of a ds b] by blast
qed

subsection \<open>The two merge paths\<close>

lemma handle_notification:
  "data_type d = ''notification'' \<Longrightarrow> data_message d = Some msg \<Longrightarrow>
   handleWebSocketMessage now sound d s = push_merge (messageId_of now d) (bellNotification now d msg) s"
  by (simp add: handleWebSocketMessage_def Let_def)

lemma handle_stored_other:
  "data_type d \<noteq> ''notification'' \<Longrightarrow>
   storedNotifications (handleWebSocketMessage now sound d s) = storedNotifications s"
  by (simp add: handleWebSocketMessage_def Let_def open_snackbar_def playNotificationSound_def
      split: option.splits)

lemma handle_stored_no_message:
  "data_message d = None \<Longrightarrow>
   storedNotifications (handleWebSocketMessage now sound d s) = storedNotifications s"
  by (simp add: handleWebSocketMessage_def Let_def open_snackbar_def playNotificationSound_def
      split: option.splits)

lemma push_merge_stored:
  "storedNotifications (push_merge mid b s) =
     (if list_ex (push_duplicate_of mid b) (storedNotifications s) then storedNotifications s
      else take 15 (b # storedNotifications s))"
  by (simp add: push_merge_def Let_def)

lemma poll_merge_stored:
  "storedNotifications (poll_merge conv s) =
     (if uniqueNew (storedNotifications s) conv = [] then storedNotifications s
      else take 20 (uniqueNew (storedNotifications s) conv @ storedNotifications s))"
  by (simp add: poll_merge_def Let_def)

lemma popup_step_stored:
  "storedNotifications (case u of [] \<Rightarrow> s
      | x # _ \<Rightarrow> (let s' = open_snackbar (message x) (ntype x) s
                  in if sound then playNotificationSound sound s' else s')) = storedNotifications s"
  by (simp add: open_snackbar_def playNotificationSound_def Let_def split: list.splits)

lemma fetch_stored:
  "storedNotifications (fetchOfflineNotifications now sound snap (Some dbs) s) =
     (let fetched = (case ls_fetched_notification_ids s of None \<Rightarrow> [] | Some ids \<Rightarrow> ids);
          conv = map convertedNotification (newNotifications now fetched dbs);
          u = uniqueNew (storedNotifications s) conv
      in if u = [] then storedNotifications s else take 20 (u @ storedNotifications s))"
  by (auto simp: fetchOfflineNotifications_def Let_def poll_merge_stored popup_step_stored uniqueNew_def)

lemma fetch_failed: "fetchOfflineNotifications now sound snap None s = s"
  by (simp add: fetchOfflineNotifications_def)


lemma uniqueNew_empty_iff:
  "uniqueNew ex conv = [] \<longleftrightarrow> list_all (\<lambda>x. list_ex (poll_duplicate_of x) ex) conv"
  by (induction conv) (auto simp: uniqueNew_def)

lemma fetch_count:
  "uniqueNew (storedNotifications s) (map convertedNotification
      (newNotifications now (case ls_fetched_notification_ids s of None \<Rightarrow> [] | Some ids \<Rightarrow> ids) dbs)) = [] \<Longrightarrow>
   notificationCount (fetchOfflineNotifications now sound snap (Some dbs) s) = notificationCount s \<and>
   ls_layout_notifications (fetchOfflineNotifications now sound snap (Some dbs) s) = ls_layout_notifications s"
  by (auto simp: fetchOfflineNotifications_def Let_def poll_merge_def open_snackbar_def
      playNotificationSound_def split: list.splits)

lemma handle_deploy_first:
  "handleWebSocketMessage 1000 True deploy_event empty_layout =
     empty_layout\<lparr>storedNotifications := [deploy_bell 1000], notificationCount := 1,
       ls_layout_notifications := Some [deploy_bell 1000]\<rparr>"
  by (simp add: handleWebSocketMessage_def deploy_event_def empty_layout_def push_merge_def
      bellNotification_def messageId_of_def truthy_str_def Let_def unread_count_def deploy_bell_def
      pr_at_def is_digit_def)

subsection \<open>Merging a duplicate\<close>

text \<open>
  Duplicates by content. A push-delivered notification whose title and
  rewritten message equal those of a stored item created less than 10000 ms
  from the arrival time leaves the whole state as it was. A poll whose new
  items (under two hours old, unread, not in the imported-id list) each have
  the title and message of a stored item created less than 30000 ms from their
  creation time leaves the stored list, the unread count and the persisted
  list as they were.
\<close>

lemma content_duplicate_merge_noop:
  "(data_type d = ''notification'' \<and> data_message d = Some msg \<and>
    list_ex (\<lambda>e. title e = data_title d \<and> message e = replace_pr msg \<and>
                  \<bar>timestamp e - int now\<bar> < 10000) (storedNotifications s)
    \<longrightarrow> handleWebSocketMessage now sound d s = s) \<and>
   (list_all (\<lambda>n. list_ex (\<lambda>e. title e = db_title n \<and> message e = db_message n \<and>
                                  \<bar>timestamp e - created_at n\<bar> < 30000) (storedNotifications s))
      (filter (\<lambda>n. int now - 7200000 < created_at n \<and> \<not> is_read n \<and>
                    db_id n \<notin> set (case ls_fetched_notification_ids s of None \<Rightarrow> [] | Some ids \<Rightarrow> ids))
         dbs)
    \<longrightarrow> storedNotifications (fetchOfflineNotifications now sound snap (Some dbs) s) = storedNotifications s \<and>
        notificationCount (fetchOfflineNotifications now sound snap (Some dbs) s) = notificationCount s \<and>
        ls_layout_notifications (fetchOfflineNotifications now sound snap (Some dbs) s)
          = ls_layout_notifications s)"
proof (intro conjI impI)
  assume a: "data_type d = ''notification'' \<and> data_message d = Some msg \<and>
    list_ex (\<lambda>e. title e = data_title d \<and> message e = replace_pr msg \<and>
                  \<bar>timestamp e - int now\<bar> < 10000) (storedNotifications s)"
  then have "list_ex (push_duplicate_of (messageId_of now d) (bellNotification now d msg))
               (storedNotifications s)"
    by (auto simp: list_ex_iff push_duplicate_of_def bellNotification_def Let_def)
  with a show "handleWebSocketMessage now sound d s = s"
    by (simp add: handle_notification push_merge_def Let_def)
next
  let ?conv = "map convertedNotification (newNotifications now
         (case ls_fetched_notification_ids s of None \<Rightarrow> [] | Some ids \<Rightarrow> ids) dbs)"
  assume "list_all (\<lambda>n. list_ex (\<lambda>e. title e = db_title n \<and> message e = db_message n \<and>
                                  \<bar>timestamp e - created_at n\<bar> < 30000) (storedNotifications s))
      (filter (\<lambda>n. int now - 7200000 < created_at n \<and> \<not> is_read n \<and>
                    db_id n \<notin> set (case ls_fetched_notification_ids s of None \<Rightarrow> [] | Some ids \<Rightarrow> ids))
         dbs)"
  then have u: "uniqueNew (storedNotifications s) ?conv = []"
    by (simp add: uniqueNew_empty_iff list_all_iff list_ex_iff newNotifications_def
        poll_duplicate_of_def convertedNotification_def)
  from u show "storedNotifications (fetchOfflineNotifications now sound snap (Some dbs) s) = storedNotifications s"
    by (simp add: fetch_stored Let_def)
  from fetch_count [OF u]
  show "notificationCount (fetchOfflineNotifications now sound snap (Some dbs) s) = notificationCount s"
    and "ls_layout_notifications (fetchOfflineNotifications now sound snap (Some dbs) s)
          = ls_layout_notifications s"
    by simp_all
qed

lemma content_duplicate_merge_noop_example:
  "handleWebSocketMessage 5000 True deploy_event (with_store [deploy_bell 1000])
     = with_store [deploy_bell 1000] \<and>
   storedNotifications (fetchOfflineNotifications 30000 True []
       (Some [polled ''2'' ''Deploy'' ''Pull Request done'' 20000]) (with_store [deploy_bell 1000]))
     = [deploy_bell 1000]"
  using content_duplicate_merge_noop [where d = deploy_event and msg = "''PR #5 done''"
      and now = 5000 and s = "with_store [deploy_bell 1000]"]
    content_duplicate_merge_noop [where now = 30000 and s = "with_store [deploy_bell 1000]"
      and dbs = "[polled ''2'' ''Deploy'' ''Pull Request done'' 20000]" and snap = "[]"]
  by (simp add: with_store_def empty_layout_def deploy_event_def deploy_bell_def polled_def
      pr_at_def is_digit_def newNotifications_def poll_duplicate_of_def convertedNotification_def)

text \<open>
  Duplicates by id, where the code finds them. A push whose message id has a
  second \<^verbatim>\<open>_\<close>-separated piece that occurs in a stored id changes nothing; a
  poll all of whose notifications are in the imported-id list changes nothing.
\<close>

lemma same_id_merge_noop:
  "(data_type d = ''notification'' \<and> data_message d = Some msg \<and> messageId_of now d \<noteq> [] \<and>
    index (split_on CHR ''_'' (messageId_of now d)) 1 = Some piece \<and>
    list_ex (\<lambda>e. js_includes (nid e) piece) (storedNotifications s)
    \<longrightarrow> handleWebSocketMessage now sound d s = s) \<and>
   (list_all (\<lambda>n. db_id n \<in> set (case ls_fetched_notification_ids s of None \<Rightarrow> [] | Some ids \<Rightarrow> ids)) dbs
    \<longrightarrow> fetchOfflineNotifications now sound snap (Some dbs) s = s)"
proof (intro conjI impI)
  assume a: "data_type d = ''notification'' \<and> data_message d = Some msg \<and> messageId_of now d \<noteq> [] \<and>
    index (split_on CHR ''_'' (messageId_of now d)) 1 = Some piece \<and>
    list_ex (\<lambda>e. js_includes (nid e) piece) (storedNotifications s)"
  then have "list_ex (push_duplicate_of (messageId_of now d) (bellNotification now d msg))
               (storedNotifications s)"
    by (auto simp: list_ex_iff push_duplicate_of_def Let_def to_str_def)
  with a show "handleWebSocketMessage now sound d s = s"
    by (simp add: handle_notification push_merge_def Let_def)
next
  assume "list_all (\<lambda>n. db_id n \<in> set (case ls_fetched_notification_ids s of None \<Rightarrow> [] | Some ids \<Rightarrow> ids)) dbs"
  then have "newNotifications now
      (case ls_fetched_notification_ids s of None \<Rightarrow> [] | Some ids \<Rightarrow> ids) dbs = []"
    by (auto simp: newNotifications_def list_all_iff filter_empty_conv)
  then show "fetchOfflineNotifications now sound snap (Some dbs) s = s"
    by (simp add: fetchOfflineNotifications_def Let_def)
qed

lemma handle_tagged_first:
  "handleWebSocketMessage 1000 True tagged_deploy_event empty_layout =
     empty_layout\<lparr>storedNotifications := [(deploy_bell 1000)\<lparr>nid := ''bell_dep_42''\<rparr>],
       notificationCount := 1,
       ls_layout_notifications := Some [(deploy_bell 1000)\<lparr>nid := ''bell_dep_42''\<rparr>]\<rparr>"
  by (simp add: handleWebSocketMessage_def tagged_deploy_event_def deploy_event_def
      empty_layout_def push_merge_def bellNotification_def messageId_of_def truthy_str_def Let_def
      unread_count_def deploy_bell_def pr_at_def is_digit_def)

text \<open>
  C1, where the code departs from it: the push path, for a message id without
  \<^verbatim>\<open>_\<close>. The id test then searches the stored ids for the text \<^verbatim>\<open>undefined\<close>. The event
  with message id \<^verbatim>\<open>m1\<close> is stored as \<^verbatim>\<open>bell_m1\<close>; delivered again 60 seconds
  later, it would be stored under the same id, and it is stored a second time:
  the list holds two items and the unread count is 2. The same event with the
  message id \<^verbatim>\<open>dep_42\<close>, delivered again 60 seconds later, changes nothing.
\<close>

theorem same_id_push_redelivery_stored_twice:
  "storedNotifications (handleWebSocketMessage 1000 True deploy_event empty_layout) = [deploy_bell 1000] \<and>
   nid (bellNotification 61000 deploy_event ''PR #5 done'') = nid (deploy_bell 1000) \<and>
   storedNotifications
     (handleWebSocketMessage 61000 True deploy_event
        (handleWebSocketMessage 1000 True deploy_event empty_layout))
     = [deploy_bell 61000, deploy_bell 1000] \<and>
   notificationCount
     (handleWebSocketMessage 61000 True deploy_event
        (handleWebSocketMessage 1000 True deploy_event empty_layout))
     = 2 \<and>
   handleWebSocketMessage 61000 True tagged_deploy_event
        (handleWebSocketMessage 1000 True tagged_deploy_event empty_layout)
     = handleWebSocketMessage 1000 True tagged_deploy_event empty_layout"
proof -
  have a: "storedNotifications (handleWebSocketMessage 1000 True deploy_event empty_layout)
      = [deploy_bell 1000]"
    by (simp add: handle_deploy_first)
  have b: "nid (bellNotification 61000 deploy_event ''PR #5 done'') = nid (deploy_bell 1000)"
    by (simp add: bellNotification_def messageId_of_def deploy_event_def deploy_bell_def
        truthy_str_def)
  have c: "storedNotifications
     (handleWebSocketMessage 61000 True deploy_event
        (handleWebSocketMessage 1000 True deploy_event empty_layout))
     = [deploy_bell 61000, deploy_bell 1000] \<and>
   notificationCount
     (handleWebSocketMessage 61000 True deploy_event
        (handleWebSocketMessage 1000 True deploy_event empty_layout))
     = 2"
    unfolding handle_deploy_first
    by (simp add: handleWebSocketMessage_def deploy_event_def empty_layout_def push_merge_def
      bellNotification_def messageId_of_def truthy_str_def Let_def unread_count_def deploy_bell_def
      push_duplicate_of_def to_str_def pr_at_def is_digit_def)
  have d: "handleWebSocketMessage 61000 True tagged_deploy_event
        (handleWebSocketMessage 1000 True tagged_deploy_event empty_layout)
     = handleWebSocketMessage 1000 True tagged_deploy_event empty_layout"
    unfolding handle_tagged_first
    by (simp add: handleWebSocketMessage_def tagged_deploy_event_def deploy_event_def
      empty_layout_def push_merge_def bellNotification_def messageId_of_def truthy_str_def Let_def
      deploy_bell_def push_duplicate_of_def to_str_def pr_at_def is_digit_def)
  from a b c d show ?thesis by simp
qed


subsection \<open>Size and retention after a merge\<close>

text \<open>
  C2, as the code has it. A push merge leaves at most \<open>max 15 n\<close> items and a
  poll merge at most \<open>max 20 n\<close>, where \<open>n\<close> is the size before. A merge that
  changes the list leaves at most 15 (push) or 20 (poll) items: the new items
  followed by the previous list in its order, cut at the cap, so the items
  dropped are those at the end of the list.
\<close>

theorem merge_size_bound_positional:
  "length (storedNotifications (handleWebSocketMessage now sound d s))
     \<le> max 15 (length (storedNotifications s)) \<and>
   (storedNotifications (handleWebSocketMessage now sound d s) \<noteq> storedNotifications s \<longrightarrow>
      length (storedNotifications (handleWebSocketMessage now sound d s)) \<le> 15 \<and>
      (\<exists>msg. data_message d = Some msg \<and>
         storedNotifications (handleWebSocketMessage now sound d s)
           = take 15 (bellNotification now d msg # storedNotifications s))) \<and>
   length (storedNotifications (fetchOfflineNotifications now sound snap response s))
     \<le> max 20 (length (storedNotifications s)) \<and>
   (storedNotifications (fetchOfflineNotifications now sound snap response s) \<noteq> storedNotifications s \<longrightarrow>
      length (storedNotifications (fetchOfflineNotifications now sound snap response s)) \<le> 20 \<and>
      (\<exists>u. u \<noteq> [] \<and> set u \<subseteq> convertedNotification ` set (the response) \<and>
         storedNotifications (fetchOfflineNotifications now sound snap response s)
           = take 20 (u @ storedNotifications s)))"
proof -
  have push: "storedNotifications (handleWebSocketMessage now sound d s) = storedNotifications s \<or>
     (\<exists>msg. data_message d = Some msg \<and>
         storedNotifications (handleWebSocketMessage now sound d s)
           = take 15 (bellNotification now d msg # storedNotifications s))"
  proof (cases "data_type d = ''notification''")
    case False
    then show ?thesis by (simp add: handle_stored_other)
  next
    case True
    show ?thesis
    proof (cases "data_message d")
      case None
      then show ?thesis by (simp add: handle_stored_no_message)
    next
      case (Some msg)
      with True show ?thesis by (simp add: handle_notification push_merge_stored)
    qed
  qed
  have poll: "storedNotifications (fetchOfflineNotifications now sound snap response s) = storedNotifications s \<or>
     (\<exists>u. u \<noteq> [] \<and> set u \<subseteq> convertedNotification ` set (the response) \<and>
         storedNotifications (fetchOfflineNotifications now sound snap response s)
           = take 20 (u @ storedNotifications s))"
  proof (cases response)
    case None
    then show ?thesis by (simp add: fetch_failed)
  next
    case (Some dbs)
    let ?u = "uniqueNew (storedNotifications s) (map convertedNotification (newNotifications now
         (case ls_fetched_notification_ids s of None \<Rightarrow> [] | Some ids \<Rightarrow> ids) dbs))"
    have "set ?u \<subseteq> convertedNotification ` set dbs"
      by (auto simp: uniqueNew_def newNotifications_def)
    with Some show ?thesis
      by (cases "?u = []") (auto simp: fetch_stored Let_def)
  qed
  from push have p1: "length (storedNotifications (handleWebSocketMessage now sound d s))
     \<le> max 15 (length (storedNotifications s))" by auto
  from push have p2: "storedNotifications (handleWebSocketMessage now sound d s) \<noteq> storedNotifications s \<longrightarrow>
      length (storedNotifications (handleWebSocketMessage now sound d s)) \<le> 15 \<and>
      (\<exists>msg. data_message d = Some msg \<and>
         storedNotifications (handleWebSocketMessage now sound d s)
           = take 15 (bellNotification now d msg # storedNotifications s))" by auto
  from poll have q1: "length (storedNotifications (fetchOfflineNotifications now sound snap response s))
     \<le> max 20 (length (storedNotifications s))" by auto
  from poll have q2: "storedNotifications (fetchOfflineNotifications now sound snap response s) \<noteq> storedNotifications s \<longrightarrow>
      length (storedNotifications (fetchOfflineNotifications now sound snap response s)) \<le> 20 \<and>
      (\<exists>u. u \<noteq> [] \<and> set u \<subseteq> convertedNotification ` set (the response) \<and>
         storedNotifications (fetchOfflineNotifications now sound snap response s)
           = take 20 (u @ storedNotifications s))" by auto
  from p1 p2 q1 q2 show ?thesis by blast
qed

theorem merge_size_bound_positional_witness:
  "storedNotifications
      (handleWebSocketMessage 5000 True deploy_event (with_store (map build_notification [0..<15])))
     \<noteq> storedNotifications (with_store (map build_notification [0..<15])) \<and>
   length (storedNotifications
      (handleWebSocketMessage 5000 True deploy_event (with_store (map build_notification [0..<15])))) \<le> 15 \<and>
   storedNotifications
      (handleWebSocketMessage 5000 True deploy_event (with_store (map build_notification [0..<15])))
     = deploy_bell 5000 # map build_notification [0..<14] \<and>
   storedNotifications (fetchOfflineNotifications 2000 True []
          (Some [polled ''9'' ''Backup'' ''ok'' 500]) (with_store (map build_notification [0..<20])))
     \<noteq> storedNotifications (with_store (map build_notification [0..<20])) \<and>
   length (storedNotifications (fetchOfflineNotifications 2000 True []
          (Some [polled ''9'' ''Backup'' ''ok'' 500]) (with_store (map build_notification [0..<20])))) \<le> 20"
proof -
  have c1: "storedNotifications
      (handleWebSocketMessage 5000 True deploy_event (with_store (map build_notification [0..<15])))
     \<noteq> storedNotifications (with_store (map build_notification [0..<15]))"
    by code_simp
  have c2: "storedNotifications (fetchOfflineNotifications 2000 True []
          (Some [polled ''9'' ''Backup'' ''ok'' 500]) (with_store (map build_notification [0..<20])))
     \<noteq> storedNotifications (with_store (map build_notification [0..<20]))"
    by code_simp
  have e: "storedNotifications
      (handleWebSocketMessage 5000 True deploy_event (with_store (map build_notification [0..<15])))
     = deploy_bell 5000 # map build_notification [0..<14]"
    by code_simp
  note t = merge_size_bound_positional [where now = 5000 and d = deploy_event
      and s = "with_store (map build_notification [0..<15])"]
  note u = merge_size_bound_positional [where now = 2000 and snap = "[]"
      and response = "Some [polled ''9'' ''Backup'' ''ok'' 500]"
      and s = "with_store (map build_notification [0..<20])"]
  from t [THEN conjunct2, THEN conjunct1, THEN mp, OF c1, THEN conjunct1]
    u [THEN conjunct2, THEN conjunct2, THEN conjunct2, THEN mp, OF c2, THEN conjunct1]
    c1 c2 e
  show ?thesis by (intro conjI)
qed

text \<open>
  A duplicate push into a list of 16 leaves 16 items; and a poll that imports
  an item created earlier than everything stored keeps it and drops the last
  stored item, which is more recent.
\<close>

theorem merge_bound_recency_counterexample:
  "length (storedNotifications
      (handleWebSocketMessage 1005 True build_event (with_store (map build_notification [0..<16])))) = 16 \<and>
   \<not> spec_retains_most_recent
       (convertedNotification (polled ''9'' ''Backup'' ''ok'' 500) # map build_notification [0..<20])
       (storedNotifications (fetchOfflineNotifications 2000 True []
          (Some [polled ''9'' ''Backup'' ''ok'' 500]) (with_store (map build_notification [0..<20]))))"
  by code_simp



subsection \<open>A poller run\<close>

lemma popup_step_popups:
  "popups_opened (case u of [] \<Rightarrow> s
      | x # _ \<Rightarrow> (let s' = open_snackbar (message x) (ntype x) s
                  in if sound then playNotificationSound sound s' else s'))
    = popups_opened s @ (case u of [] \<Rightarrow> [] | x # _ \<Rightarrow> [(message x, ntype x)])"
  by (simp add: open_snackbar_def playNotificationSound_def Let_def split: list.splits)

lemma poll_merge_popups: "popups_opened (poll_merge conv s) = popups_opened s"
  by (simp add: poll_merge_def Let_def)

lemma fetch_popups:
  "popups_opened (fetchOfflineNotifications now sound snap (Some dbs) s) =
     popups_opened s @
       (case uniqueNew snap (map convertedNotification (newNotifications now
           (case ls_fetched_notification_ids s of None \<Rightarrow> [] | Some ids \<Rightarrow> ids) dbs)) of
          [] \<Rightarrow> [] | x # _ \<Rightarrow> [(message x, ntype x)])"
  by (auto simp: fetchOfflineNotifications_def Let_def poll_merge_popups popup_step_popups
      uniqueNew_def)

lemma uniqueNew_sorted_head:
  assumes "sorted_wrt (\<lambda>a b. created_at b \<le> created_at a) dbs"
  shows "\<forall>y \<in> set (uniqueNew ex (map convertedNotification (newNotifications now fetched dbs))).
           timestamp y \<le> timestamp (hd (uniqueNew ex (map convertedNotification (newNotifications now fetched dbs))))"
proof -
  let ?u = "uniqueNew ex (map convertedNotification (newNotifications now fetched dbs))"
  have "sorted_wrt (\<lambda>a b. created_at b \<le> created_at a) (newNotifications now fetched dbs)"
    using assms unfolding newNotifications_def by (rule sorted_wrt_filter)
  then have "sorted_wrt (\<lambda>a b. timestamp b \<le> timestamp a)
      (map convertedNotification (newNotifications now fetched dbs))"
    by (simp add: sorted_wrt_map convertedNotification_def)
  then have s: "sorted_wrt (\<lambda>a b. timestamp b \<le> timestamp a) ?u"
    unfolding uniqueNew_def by (rule sorted_wrt_filter)
  show ?thesis
  proof (cases ?u)
    case Nil
    then show ?thesis by simp
  next
    case (Cons x xs)
    with s show ?thesis by auto
  qed
qed

text \<open>
  A poller run whose request succeeded. Every item added to the store comes
  from a fetched notification that is under two hours old, unread, not in the
  imported-id list and has no stored item with its title and message within
  30000 ms; the added items go in front of the store, which is then cut at
  20. The popup filter reads the store as the function closed over it; if it
  lets items through, one popup opens, for the first of them in the order of
  the response. When that store is the current one and items are added, the
  popup is for the first added item, the head of the store. When the response
  lists notifications newest first, that item is the most recent of them.
\<close>

lemma poll_dedup_and_popup:
  "(let fetched = (case ls_fetched_notification_ids s of None \<Rightarrow> [] | Some ids \<Rightarrow> ids);
        conv = map convertedNotification (newNotifications now fetched dbs);
        added = uniqueNew (storedNotifications s) conv;
        after = fetchOfflineNotifications now sound snap (Some dbs) s
    in (\<forall>x \<in> set added. \<exists>n \<in> set dbs. x = convertedNotification n \<and> db_id n \<notin> set fetched \<and>
            \<not> is_read n \<and> int now - 7200000 < created_at n \<and>
            \<not> list_ex (\<lambda>e. title e = title x \<and> message e = message x \<and>
                              \<bar>timestamp e - timestamp x\<bar> < 30000) (storedNotifications s)) \<and>
       storedNotifications after =
         (if added = [] then storedNotifications s else take 20 (added @ storedNotifications s)) \<and>
       popups_opened after = popups_opened s @
         (case uniqueNew snap conv of [] \<Rightarrow> [] | x # _ \<Rightarrow> [(message x, ntype x)]) \<and>
       (snap = storedNotifications s \<and> added \<noteq> [] \<longrightarrow>
          popups_opened after = popups_opened s @ [(message (hd added), ntype (hd added))] \<and>
          hd (storedNotifications after) = hd added) \<and>
       (sorted_wrt (\<lambda>a b. created_at b \<le> created_at a) dbs \<longrightarrow>
          (\<forall>y \<in> set (uniqueNew snap conv). timestamp y \<le> timestamp (hd (uniqueNew snap conv)))))"
proof -
  let ?fetched = "case ls_fetched_notification_ids s of None \<Rightarrow> [] | Some ids \<Rightarrow> ids"
  let ?conv = "map convertedNotification (newNotifications now ?fetched dbs)"
  let ?added = "uniqueNew (storedNotifications s) ?conv"
  let ?after = "fetchOfflineNotifications now sound snap (Some dbs) s"
  have a: "\<forall>x \<in> set ?added. \<exists>n \<in> set dbs. x = convertedNotification n \<and> db_id n \<notin> set ?fetched \<and>
            \<not> is_read n \<and> int now - 7200000 < created_at n \<and>
            \<not> list_ex (\<lambda>e. title e = title x \<and> message e = message x \<and>
                              \<bar>timestamp e - timestamp x\<bar> < 30000) (storedNotifications s)"
    by (auto simp: uniqueNew_def newNotifications_def poll_duplicate_of_def list_ex_iff)
  have b: "storedNotifications ?after =
         (if ?added = [] then storedNotifications s else take 20 (?added @ storedNotifications s))"
    by (simp add: fetch_stored Let_def)
  have c: "popups_opened ?after = popups_opened s @
         (case uniqueNew snap ?conv of [] \<Rightarrow> [] | x # _ \<Rightarrow> [(message x, ntype x)])"
    by (rule fetch_popups)
  have d: "snap = storedNotifications s \<and> ?added \<noteq> [] \<longrightarrow>
          popups_opened ?after = popups_opened s @ [(message (hd ?added), ntype (hd ?added))] \<and>
          hd (storedNotifications ?after) = hd ?added"
    using b c by (cases ?added) auto
  have e: "sorted_wrt (\<lambda>a b. created_at b \<le> created_at a) dbs \<longrightarrow>
          (\<forall>y \<in> set (uniqueNew snap ?conv). timestamp y \<le> timestamp (hd (uniqueNew snap ?conv)))"
    using uniqueNew_sorted_head by blast
  from a b c d e show ?thesis unfolding Let_def by (intro conjI)
qed

text \<open>
  The scenario of the specification: three fetched notifications, listed
  newest first, the second a duplicate of a push-delivered entry created 19
  seconds earlier. Two are added and one popup opens, for the most recent.
\<close>

lemma poll_dedup_and_popup_example:
  "storedNotifications (fetchOfflineNotifications 30000 True [push_entry] (Some scenario_response)
       (with_store [push_entry]))
     = [convertedNotification (polled ''3'' ''Scale'' ''scaled'' 25000),
        convertedNotification (polled ''1'' ''Backup'' ''ok'' 5000), push_entry] \<and>
   popups_opened (fetchOfflineNotifications 30000 True [push_entry] (Some scenario_response)
       (with_store [push_entry])) = [(''scaled'', Info)]"
  using poll_dedup_and_popup [where now = 30000 and snap = "[push_entry]"
      and dbs = scenario_response and s = "with_store [push_entry]"]
  by (simp add: Let_def scenario_response_def with_store_def empty_layout_def push_entry_def
      polled_def newNotifications_def uniqueNew_def convertedNotification_def poll_duplicate_of_def)

text \<open>
  C4, where the code departs from it. When the response does not list the
  newest notification first, the popup is for \<^verbatim>\<open>uniqueNew[0]\<close>, here the older
  of the two new items, which are both stored. When the store the polling
  function closed over is not the current one, the popup filter and the merge
  disagree: with the empty store of the first render, a fetched duplicate of
  the stored entry opens a popup although nothing is added.
\<close>

theorem poll_popup_for_first_in_response:
  "popups_opened (fetchOfflineNotifications 5000 True []
      (Some [polled ''1'' ''Backup'' ''ok'' 1000, polled ''2'' ''Scale'' ''scaled'' 2000]) empty_layout)
     = [(''ok'', Info)] \<and>
   storedNotifications (fetchOfflineNotifications 5000 True []
      (Some [polled ''1'' ''Backup'' ''ok'' 1000, polled ''2'' ''Scale'' ''scaled'' 2000]) empty_layout)
     = [convertedNotification (polled ''1'' ''Backup'' ''ok'' 1000),
        convertedNotification (polled ''2'' ''Scale'' ''scaled'' 2000)] \<and>
   timestamp (convertedNotification (polled ''1'' ''Backup'' ''ok'' 1000))
     < timestamp (convertedNotification (polled ''2'' ''Scale'' ''scaled'' 2000)) \<and>
   popups_opened (fetchOfflineNotifications 30000 True []
      (Some [polled ''2'' ''Deploy'' ''done'' 20000]) (with_store [push_entry]))
     = [(''done'', Info)] \<and>
   storedNotifications (fetchOfflineNotifications 30000 True []
      (Some [polled ''2'' ''Deploy'' ''done'' 20000]) (with_store [push_entry]))
     = [push_entry]"
  by (simp add: fetch_popups fetch_stored Let_def empty_layout_def polled_def newNotifications_def
      uniqueNew_def convertedNotification_def poll_duplicate_of_def with_store_def push_entry_def)

subsection \<open>Stored message text by channel\<close>

lemma fetch_stored_origin:
  "x \<in> set (storedNotifications (fetchOfflineNotifications now sound snap (Some dbs) s)) \<Longrightarrow>
   x \<in> set (storedNotifications s) \<or> (\<exists>n \<in> set dbs. x = convertedNotification n)"
  by (auto simp: fetch_stored Let_def uniqueNew_def newNotifications_def
      split: if_splits dest!: in_set_takeD)

text \<open>
  C10. The message of a push-delivered bell notification is the wire message
  after the replacement. An occurrence is the text \<^verbatim>\<open>PR #\<close> followed by a
  digit. A message without an occurrence is stored as it is; in a message
  with one, the text before the first occurrence is kept, \<^verbatim>\<open>PR #\<close> with all
  the digits that follow becomes \<^verbatim>\<open>Pull Request\<close>, and the rest is rewritten in
  the same way; no occurrence is left in the result. The duplicate test of
  the push path compares stored messages with that rewritten text. Every item
  a push adds is that bell notification. A poll-imported item carries the
  server's message unchanged. So a message that contains an occurrence is
  stored with different text by the two channels.
\<close>

theorem push_message_rewritten_poll_verbatim:
  "message (bellNotification now d msg) = replace_pr msg \<and>
   (contains_pr msg \<longleftrightarrow> (\<exists>p c t. msg = p @ ''PR #'' @ c # t \<and> c \<in> set ''0123456789'')) \<and>
   \<not> contains_pr (replace_pr msg) \<and>
   (\<not> contains_pr msg \<longrightarrow> replace_pr msg = msg) \<and>
   (\<not> contains_pr a \<and> ds \<noteq> [] \<and> set ds \<subseteq> set ''0123456789'' \<and>
    (b = [] \<or> hd b \<notin> set ''0123456789'') \<longrightarrow>
      replace_pr (a @ ''PR #'' @ ds @ b) = a @ ''Pull Request'' @ replace_pr b) \<and>
   (push_duplicate_of mid (bellNotification now d msg) e \<longleftrightarrow>
      (title e = data_title d \<and> message e = replace_pr msg \<and> \<bar>timestamp e - int now\<bar> < 10000) \<or>
      (mid \<noteq> [] \<and> js_includes (nid e) (to_str (index (split_on CHR ''_'' mid) 1)))) \<and>
   (data_type d = ''notification'' \<and> data_message d = Some msg \<longrightarrow>
      handleWebSocketMessage now sound d s
        = push_merge (messageId_of now d) (bellNotification now d msg) s \<and>
      (\<forall>x \<in> set (storedNotifications (handleWebSocketMessage now sound d s)).
          x \<in> set (storedNotifications s) \<or> x = bellNotification now d msg)) \<and>
   message (convertedNotification n) = db_message n \<and>
   (\<forall>x \<in> set (storedNotifications (fetchOfflineNotifications now sound snap (Some dbs) s)).
       x \<in> set (storedNotifications s) \<or>
       (\<exists>n \<in> set dbs. x = convertedNotification n \<and> message x = db_message n)) \<and>
   (contains_pr msg \<and> db_message n = msg \<longrightarrow>
      message (bellNotification now d msg) \<noteq> message (convertedNotification n))"
proof -
  have a: "message (bellNotification now d msg) = replace_pr msg"
    by (simp add: bellNotification_def)
  have a': "contains_pr msg \<longleftrightarrow> (\<exists>p c t. msg = p @ ''PR #'' @ c # t \<and> c \<in> set ''0123456789'')"
    by (rule contains_pr_iff)
  have b: "\<not> contains_pr (replace_pr msg)" by (rule replace_pr_removes_all)
  have c: "\<not> contains_pr msg \<longrightarrow> replace_pr msg = msg" by (simp add: replace_pr_unchanged)
  have c': "\<not> contains_pr a \<and> ds \<noteq> [] \<and> set ds \<subseteq> set ''0123456789'' \<and>
    (b = [] \<or> hd b \<notin> set ''0123456789'') \<longrightarrow>
      replace_pr (a @ ''PR #'' @ ds @ b) = a @ ''Pull Request'' @ replace_pr b"
    by (rule replace_pr_first_match_explicit)
  have d: "push_duplicate_of mid (bellNotification now d msg) e \<longleftrightarrow>
      (title e = data_title d \<and> message e = replace_pr msg \<and> \<bar>timestamp e - int now\<bar> < 10000) \<or>
      (mid \<noteq> [] \<and> js_includes (nid e) (to_str (index (split_on CHR ''_'' mid) 1)))"
    by (simp add: push_duplicate_of_def bellNotification_def Let_def)
  have e: "data_type d = ''notification'' \<and> data_message d = Some msg \<longrightarrow>
      handleWebSocketMessage now sound d s
        = push_merge (messageId_of now d) (bellNotification now d msg) s \<and>
      (\<forall>x \<in> set (storedNotifications (handleWebSocketMessage now sound d s)).
          x \<in> set (storedNotifications s) \<or> x = bellNotification now d msg)"
    by (auto simp: handle_notification push_merge_stored split: if_splits dest!: in_set_takeD)
  have f: "message (convertedNotification n) = db_message n"
    by (simp add: convertedNotification_def)
  have g: "\<forall>x \<in> set (storedNotifications (fetchOfflineNotifications now sound snap (Some dbs) s)).
       x \<in> set (storedNotifications s) \<or>
       (\<exists>n \<in> set dbs. x = convertedNotification n \<and> message x = db_message n)"
    using fetch_stored_origin by (fastforce simp: convertedNotification_def)
  have h: "contains_pr msg \<and> db_message n = msg \<longrightarrow>
      message (bellNotification now d msg) \<noteq> message (convertedNotification n)"
    using a b f by metis
  from a a' b c c' d e f g h show ?thesis by (intro conjI)
qed



text \<open>
  For the wire message \<^verbatim>\<open>PR #5 done\<close> the push path stores \<^verbatim>\<open>Pull Request done\<close>
  and the poll path \<^verbatim>\<open>PR #5 done\<close>; polled one second after the push, the same
  notification is stored a second time.
\<close>

theorem push_message_rewritten_poll_verbatim_witness:
  "contains_pr ''PR #5 done'' \<and>
   replace_pr ''Merged PR #123 and PR #7!'' = ''Merged Pull Request and Pull Request!'' \<and>
   message (bellNotification 1000 deploy_event ''PR #5 done'') = ''Pull Request done'' \<and>
   message (convertedNotification (polled ''7'' ''Deploy'' ''PR #5 done'' 900)) = ''PR #5 done'' \<and>
   storedNotifications (handleWebSocketMessage 1000 True deploy_event empty_layout) = [deploy_bell 1000] \<and>
   map message (storedNotifications (fetchOfflineNotifications 2000 True []
       (Some [polled ''7'' ''Deploy'' ''PR #5 done'' 900])
       (handleWebSocketMessage 1000 True deploy_event empty_layout)))
     = [''PR #5 done'', ''Pull Request done'']"
proof -
  have n: "\<not> contains_pr ''Merged '' \<and> ''123'' \<noteq> [] \<and> set ''123'' \<subseteq> set ''0123456789'' \<and>
    ('' and PR #7!'' = [] \<or> hd '' and PR #7!'' \<notin> set ''0123456789'')"
    by (simp add: pr_at_def)
  from push_message_rewritten_poll_verbatim [where a = "''Merged ''" and ds = "''123''"
      and b = "'' and PR #7!''", THEN conjunct2, THEN conjunct2, THEN conjunct2, THEN conjunct2,
      THEN conjunct1, THEN mp, OF n]
  have x: "replace_pr ''Merged PR #123 and PR #7!'' = ''Merged Pull Request and Pull Request!''"
    by (simp add: pr_at_def is_digit_def)
  have y1: "contains_pr ''PR #5 done''"
    by (simp add: pr_at_def is_digit_def)
  have y2: "message (bellNotification 1000 deploy_event ''PR #5 done'') = ''Pull Request done''"
    by (simp add: bellNotification_def pr_at_def is_digit_def)
  have y3: "message (convertedNotification (polled ''7'' ''Deploy'' ''PR #5 done'' 900))
      = ''PR #5 done''"
    by (simp add: convertedNotification_def polled_def)
  have y4: "storedNotifications (handleWebSocketMessage 1000 True deploy_event empty_layout)
      = [deploy_bell 1000]"
    by (simp add: handle_deploy_first)
  have y5: "map message (storedNotifications (fetchOfflineNotifications 2000 True []
       (Some [polled ''7'' ''Deploy'' ''PR #5 done'' 900])
       (handleWebSocketMessage 1000 True deploy_event empty_layout)))
     = [''PR #5 done'', ''Pull Request done'']"
    by (simp add: handle_deploy_first fetch_stored Let_def)
       (simp add: empty_layout_def polled_def deploy_bell_def newNotifications_def uniqueNew_def
        convertedNotification_def poll_duplicate_of_def)
  from y1 x y2 y3 y4 y5 show ?thesis by (intro conjI)
qed

subsection \<open>Acknowledgment and clearing\<close>

text \<open>
  C7, as the code has it. Marking one notification or all of them as read
  updates the list, the unread count and the persisted list before the remote
  call settles, whatever its outcome; the call for one notification is issued
  only for an id that starts with \<^verbatim>\<open>db_\<close>. Clearing issues the remote call
  first and empties the list, the count, the persisted list and the
  imported-id list once the call has settled, in the same way whether it was
  fulfilled or rejected; while the call is pending all four are as they were.
  In all three a rejected call leaves the same state as
  a fulfilled one.
\<close>

theorem local_first_marks_remote_first_clear:
  "storedNotifications (markNotificationAsRead outcome i s)
     = map (\<lambda>n. if nid n = i then n\<lparr>read := True\<rparr> else n) (storedNotifications s) \<and>
   ls_layout_notifications (markNotificationAsRead outcome i s)
     = Some (storedNotifications (markNotificationAsRead outcome i s)) \<and>
   notificationCount (markNotificationAsRead outcome i s)
     = unread_count (storedNotifications (markNotificationAsRead outcome i s)) \<and>
   api_calls (markNotificationAsRead outcome i s)
     = api_calls s @ (if startsWith i ''db_'' then [MarkAsRead (drop 3 i)] else []) \<and>
   storedNotifications (markAllNotificationsAsRead outcome s)
     = map (\<lambda>n. n\<lparr>read := True\<rparr>) (storedNotifications s) \<and>
   ls_layout_notifications (markAllNotificationsAsRead outcome s)
     = Some (storedNotifications (markAllNotificationsAsRead outcome s)) \<and>
   notificationCount (markAllNotificationsAsRead outcome s) = 0 \<and>
   api_calls (markAllNotificationsAsRead outcome s) = api_calls s @ [MarkAllAsRead] \<and>
   api_calls (clearAllNotifications outcome s) = api_calls s @ [ClearAll] \<and>
   (outcome \<noteq> Pending \<longrightarrow>
      storedNotifications (clearAllNotifications outcome s) = [] \<and>
      notificationCount (clearAllNotifications outcome s) = 0 \<and>
      ls_layout_notifications (clearAllNotifications outcome s) = None \<and>
      ls_fetched_notification_ids (clearAllNotifications outcome s) = None) \<and>
   storedNotifications (clearAllNotifications Pending s) = storedNotifications s \<and>
   notificationCount (clearAllNotifications Pending s) = notificationCount s \<and>
   ls_layout_notifications (clearAllNotifications Pending s) = ls_layout_notifications s \<and>
   ls_fetched_notification_ids (clearAllNotifications Pending s)
     = ls_fetched_notification_ids s \<and>
   clearAllNotifications Rejected s = clearAllNotifications Resolved s \<and>
   markNotificationAsRead Rejected i s = markNotificationAsRead Resolved i s \<and>
   markAllNotificationsAsRead Rejected s = markAllNotificationsAsRead Resolved s"
  by (simp add: markNotificationAsRead_def markAllNotificationsAsRead_def
      clearAllNotifications_def Let_def)

theorem local_first_marks_remote_first_clear_witness:
  "storedNotifications (clearAllNotifications Rejected (with_store [deploy_bell 1000])) = [] \<and>
   ls_layout_notifications (clearAllNotifications Rejected (with_store [deploy_bell 1000])) = None \<and>
   map read (storedNotifications (markNotificationAsRead Pending ''bell_m1''
       (with_store [deploy_bell 1000]))) = [True] \<and>
   notificationCount (markNotificationAsRead Pending ''bell_m1'' (with_store [deploy_bell 1000])) = 0"
  using local_first_marks_remote_first_clear [where outcome = Rejected and i = "''bell_m1''"
      and s = "with_store [deploy_bell 1000]"]
    local_first_marks_remote_first_clear [where outcome = Pending and i = "''bell_m1''"
      and s = "with_store [deploy_bell 1000]"]
  by (simp add: with_store_def empty_layout_def deploy_bell_def unread_count_def
      markNotificationAsRead_def clearAllNotifications_def Let_def)

text \<open>
  While the clear-all call is in flight nothing has been cleared locally.
\<close>

theorem clear_all_not_local_first_counterexample:
  "storedNotifications (clearAllNotifications Pending (with_store [deploy_bell 1000]))
     = [deploy_bell 1000] \<and>
   api_calls (clearAllNotifications Pending (with_store [deploy_bell 1000])) = [ClearAll]"
  by (simp add: clearAllNotifications_def with_store_def empty_layout_def)

subsection \<open>When the poller runs\<close>

text \<open>
  C8, as the code has it. The set-up effect runs the poller once and starts an
  interval of 30000 ms. When the interval elapses the poller runs only if
  real-time updates are on and the tab is visible. A visibility change runs
  nothing: after the tab becomes visible again the poller runs at the next
  elapse of the interval.
\<close>

theorem poller_runs_on_visible_ticks_only:
  "pollInterval (page_step EffectRun s) = Some 30000 \<and>
   fetch_calls (page_step EffectRun s) = fetch_calls s + 1 \<and>
   fetch_calls (page_step IntervalElapsed s) =
     (if pollInterval s \<noteq> None \<and> realTimeUpdates s \<and> visible s
      then fetch_calls s + 1 else fetch_calls s) \<and>
   fetch_calls (page_step (VisibilityChange v) s) = fetch_calls s \<and>
   visible (page_step (VisibilityChange v) s) = v \<and>
   (realTimeUpdates s \<and> pollInterval s \<noteq> None \<longrightarrow>
      fetch_calls (page_step IntervalElapsed (page_step (VisibilityChange True) s))
        = fetch_calls s + 1)"
  by (simp add: pollDelay_def)

theorem poller_runs_on_visible_ticks_only_witness:
  "fetch_calls (page_step IntervalElapsed (page_step (VisibilityChange True) hidden_page)) = 2 \<and>
   fetch_calls (page_step IntervalElapsed hidden_page) = 1"
  using poller_runs_on_visible_ticks_only [where s = "page_step (VisibilityChange True) hidden_page"
      and v = True]
    poller_runs_on_visible_ticks_only [where s = hidden_page]
  by (simp add: hidden_page_def)

text \<open>
  The tab was hidden and becomes visible: the number of poller runs is unchanged.
\<close>

theorem visibility_regain_no_poll_counterexample:
  "\<not> visible hidden_page \<and>
   visible (page_step (VisibilityChange True) hidden_page) \<and>
   fetch_calls (page_step (VisibilityChange True) hidden_page) = fetch_calls hidden_page"
  by (simp add: hidden_page_def)


subsection \<open>Request deltas\<close>

lemma update_commute:
  "k \<in> fst ` set al \<Longrightarrow> k \<noteq> k' \<Longrightarrow>
   AList.update k v (AList.update k' v' al) = AList.update k' v' (AList.update k v al)"
  by (induction al) auto

lemma keys_spread: "fst ` set (spread al u) = fst ` set al \<union> fst ` set u"
  unfolding spread_def
proof (induction u arbitrary: al)
  case Nil
  then show ?case by simp
next
  case (Cons a u)
  obtain k v where a: "a = (k, v)" by (cases a)
  have "fst ` set (fold (\<lambda>(k, v). AList.update k v) u (AList.update k v al))
      = fst ` set (AList.update k v al) \<union> fst ` set u"
    by (rule Cons.IH)
  then show ?case by (auto simp: a AList.dom_update)
qed

lemma map_of_spread: "map_of (spread al u) = map_of al ++ map_of (rev u)"
  unfolding spread_def
proof (induction u arbitrary: al)
  case Nil
  then show ?case by simp
next
  case (Cons a u)
  obtain k v where a: "a = (k, v)" by (cases a)
  have "map_of (fold (\<lambda>(k, v). AList.update k v) u (AList.update k v al))
      = map_of (AList.update k v al) ++ map_of (rev u)"
    by (rule Cons.IH)
  then show ?case
    by (simp add: a AList.update_conv' map_add_def fun_eq_iff split: option.splits)
qed

lemma map_of_rev_distinct: "distinct (map fst xs) \<Longrightarrow> map_of (rev xs) = map_of xs"
proof (induction xs)
  case Nil
  then show ?case by simp
next
  case (Cons a xs)
  obtain k v where a: "a = (k, v)" by (cases a)
  from Cons.prems a have "map_of xs k = None" by (simp add: map_of_eq_None_iff)
  with Cons show ?case
    by (auto simp: a map_add_def fun_eq_iff split: option.splits)
qed

lemma spread_absorb:
  "k \<in> fst ` set al \<Longrightarrow> k \<in> fst ` set u \<Longrightarrow> spread (AList.update k v al) u = spread al u"
proof (induction u arbitrary: al)
  case Nil
  then show ?case by simp
next
  case (Cons a u)
  obtain k' v' where a: "a = (k', v')" by (cases a)
  show ?case
  proof (cases "k' = k")
    case True
    then show ?thesis by (simp add: a spread_def)
  next
    case False
    with Cons.prems a have ku: "k \<in> fst ` set u" by auto
    have "spread (AList.update k v al) (a # u) = spread (AList.update k' v' (AList.update k v al)) u"
      by (simp add: a spread_def)
    also have "\<dots> = spread (AList.update k v (AList.update k' v' al)) u"
      using update_commute [OF Cons.prems(1), of k' v v'] False by simp
    also have "\<dots> = spread (AList.update k' v' al) u"
      using Cons.IH [of "AList.update k' v' al"] Cons.prems(1) ku by (simp add: AList.dom_update)
    also have "\<dots> = spread al (a # u)" by (simp add: a spread_def)
    finally show ?thesis .
  qed
qed

lemma spread_idem: "spread (spread al u) u = spread al u"
proof (induction u arbitrary: al)
  case Nil
  then show ?case by (simp add: spread_def)
next
  case (Cons a u)
  obtain k v where a: "a = (k, v)" by (cases a)
  let ?X = "spread (AList.update k v al) u"
  have kx: "k \<in> fst ` set ?X" by (simp add: keys_spread AList.dom_update)
  have s1: "spread al (a # u) = ?X" by (simp add: a spread_def)
  have "spread ?X (a # u) = spread (AList.update k v ?X) u" by (simp add: a spread_def)
  also have "\<dots> = spread ?X u"
  proof (cases "k \<in> fst ` set u")
    case True
    with kx show ?thesis by (rule spread_absorb)
  next
    case False
    then have "map_of (rev u) k = None" by (simp add: map_of_eq_None_iff)
    then have "map_of ?X k = Some v"
      by (simp add: map_of_spread map_add_def AList.update_conv')
    then show ?thesis by (simp add: AList.update_triv)
  qed
  also have "\<dots> = ?X" by (rule Cons.IH)
  finally show ?case by (simp add: s1)
qed

lemma spread_self: "distinct (map fst u) \<Longrightarrow> spread u u = u"
proof -
  assume d: "distinct (map fst u)"
  have "set w \<subseteq> set u \<Longrightarrow> spread u w = u" for w
  proof (induction w)
    case Nil
    then show ?case by (simp add: spread_def)
  next
    case (Cons a w)
    obtain k v where a: "a = (k, v)" by (cases a)
    with Cons.prems have "(k, v) \<in> set u" by simp
    with d have "map_of u k = Some v" by simp
    then have "AList.update k v u = u" by (rule AList.update_triv)
    with Cons show ?case by (simp add: a spread_def)
  qed
  then show ?thesis by simp
qed

lemma same_request_spread:
  "distinct (map fst u) \<Longrightarrow> same_request req u \<Longrightarrow> same_request (spread req u) u"
  unfolding same_request_def
  by (simp add: map_of_spread map_of_rev_distinct map_add_def split: option.splits)

lemma applyDelta_idem:
  assumes "distinct (map fst u)"
  shows "applyDelta u (applyDelta u reqs) = applyDelta u reqs"
proof -
  let ?f = "\<lambda>req. if same_request req u then spread req u else req"
  have ff: "?f (?f req) = ?f req" for req
    using same_request_spread [OF assms] by (simp add: spread_idem)
  have uu: "same_request u u" by (simp add: same_request_def)
  show ?thesis
  proof (cases "list_ex (\<lambda>req. same_request req u) reqs")
    case True
    then obtain r where r: "r \<in> set reqs" "same_request r u" by (auto simp: list_ex_iff)
    then have "same_request (?f r) u" using same_request_spread [OF assms] by simp
    with r have "list_ex (\<lambda>req. same_request req u) (map ?f reqs)"
      by (auto simp: list_ex_iff)
    with True show ?thesis by (simp add: applyDelta_def Let_def ff)
  next
    case False
    then have "map ?f reqs = reqs" by (auto simp: list_ex_iff map_idI)
    with False uu show ?thesis
      by (simp add: applyDelta_def Let_def spread_self [OF assms])
  qed
qed

text \<open>
  C5. For every cache state and every delta (an object, so no field occurs
  twice in it) that the handler applies, handling the same delta again, at any
  time, leaves the request list and the persisted list exactly as the first
  application left them: the first application gives the list the updater
  computes, and the updater applied to its own result returns it unchanged.
\<close>

theorem request_delta_idempotent:
  assumes "distinct (map fst u)"
    and "updateId_of first u \<notin> set (processedUpdates s)"
  shows "requests (handleRequestUpdate again u (handleRequestUpdate first u s))
           = requests (handleRequestUpdate first u s) \<and>
         ls_dashboard_requests (handleRequestUpdate again u (handleRequestUpdate first u s))
           = ls_dashboard_requests (handleRequestUpdate first u s) \<and>
         requests (handleRequestUpdate first u s) = applyDelta u (requests s) \<and>
         applyDelta u (applyDelta u (requests s)) = applyDelta u (requests s)"
  using assms by (simp add: handleRequestUpdate_def Let_def applyDelta_idem)

theorem request_delta_idempotent_witness:
  "requests (handleRequestUpdate 7 deployed_delta
      (handleRequestUpdate 5 deployed_delta (handleRequestUpdate 3 pending_delta empty_dashboard)))
     = [deployed_delta] \<and>
   requests (handleRequestUpdate 5 deployed_delta (handleRequestUpdate 3 pending_delta empty_dashboard))
     = [deployed_delta]"
  using request_delta_idempotent [where u = deployed_delta and first = 5 and again = 7
      and s = "handleRequestUpdate 3 pending_delta empty_dashboard"]
  by (simp add: handleRequestUpdate_def Let_def applyDelta_def same_request_def spread_def
      updateId_of_def field_text_def pending_delta_def deployed_delta_def empty_dashboard_def)


subsection \<open>The greeting\<close>

lemma resume_flag:
  "sessionStorage (resume_effect now (Some u) s) (greetingKey u) = sessionStorage s (greetingKey u)"
  by (auto simp: resume_effect_def initializeNewConversation_def Let_def greetingKey_def
      split: option.splits sval.splits)

lemma resume_welcome_added: "welcome_added (resume_effect now usr s) = welcome_added s"
  by (auto simp: resume_effect_def initializeNewConversation_def Let_def
      split: option.splits sval.splits)

lemma clearChat_welcome_added: "welcome_added (clearChat now conn usr s) = welcome_added s"
  by (simp add: clearChat_def Let_def split: option.splits)

lemma step_budget:
  "welcome_added (chat_step u ev s) + greeting_budget u (chat_step u ev s)
     \<le> welcome_added s + greeting_budget u s + (if clears_or_logs_out ev then 1 else 0)"
  by (cases ev)
     (simp_all add: greeting_budget_def resume_flag resume_welcome_added clearChat_welcome_added
        addWelcomeMessage_def showChatCleared_def logout_def Let_def truthy_sval_def)

lemma run_budget:
  "welcome_added (fold (chat_step u) steps s) + greeting_budget u (fold (chat_step u) steps s)
     \<le> welcome_added s + greeting_budget u s + length (filter clears_or_logs_out steps)"
proof (induction steps arbitrary: s)
  case Nil
  then show ?case by simp
next
  case (Cons ev steps)
  from Cons.IH [of "chat_step u ev s"] step_budget [of u ev s]
  show ?case by (simp split: if_splits)
qed

lemma step_monotone: "welcome_added s \<le> welcome_added (chat_step u ev s)"
  by (cases ev)
     (simp_all add: resume_welcome_added clearChat_welcome_added addWelcomeMessage_def
        showChatCleared_def logout_def Let_def)

lemma run_monotone: "welcome_added s \<le> welcome_added (fold (chat_step u) steps s)"
proof (induction steps arbitrary: s)
  case Nil
  then show ?case by simp
next
  case (Cons ev steps)
  from Cons.IH [of "chat_step u ev s"] step_monotone [of s u ev]
  show ?case by simp
qed

text \<open>
  C9, as the code has it. For one user, over any sequence of events of a
  browser session, the welcome message is added at most once more than the
  number of chat clears and logouts in the sequence. So without a clear or a
  logout it is added at most once, and not at all once the flag
  \<^verbatim>\<open>greeting_shown_<id>\<close> is set: the first call of \<^verbatim>\<open>addWelcomeMessage\<close> with the
  flag unset shows the message and sets the flag, a later call changes
  nothing, and the resume never touches the flag, whatever the saved history
  and the login time. Clearing the chat (while no reply is awaited) and
  logging out remove the flag, and the next resume requests the welcome
  message again.
\<close>

theorem greeting_once_until_clear_or_logout:
  "welcome_added (fold (chat_step u) steps s)
     \<le> welcome_added s + 1 + length (filter clears_or_logs_out steps) \<and>
   (filter clears_or_logs_out steps = [] \<longrightarrow>
      welcome_added (fold (chat_step u) steps s) \<le> welcome_added s + 1) \<and>
   (filter clears_or_logs_out steps = [] \<and> truthy_sval (sessionStorage s (greetingKey u)) \<longrightarrow>
      welcome_added (fold (chat_step u) steps s) = welcome_added s) \<and>
   (\<not> truthy_sval (sessionStorage s (greetingKey u)) \<longrightarrow>
      welcome_added (addWelcomeMessage now u s) = welcome_added s + 1 \<and>
      map msg_id (messages (addWelcomeMessage now u s)) = [''welcome'']) \<and>
   (truthy_sval (sessionStorage s (greetingKey u)) \<longrightarrow> addWelcomeMessage now u s = s) \<and>
   truthy_sval (sessionStorage (addWelcomeMessage now u s) (greetingKey u)) \<and>
   (filter clears_or_logs_out steps = [] \<longrightarrow>
      welcome_added (fold (chat_step u) steps (addWelcomeMessage now u s))
        = welcome_added (addWelcomeMessage now u s)) \<and>
   sessionStorage (resume_effect now (Some u) s) (greetingKey u) = sessionStorage s (greetingKey u) \<and>
   (\<not> processing s \<and> user_id u \<noteq> [] \<longrightarrow>
      sessionStorage (clearChat now conn (Some u) s) (greetingKey u) = None \<and>
      chat_timeouts (resume_effect later (Some u) (clearChat now conn (Some u) s))
        = chat_timeouts s @ [(500, ShowChatCleared), (500, AddWelcomeMessage)]) \<and>
   sessionStorage (logout s) (greetingKey u) = None \<and>
   (user_id u \<noteq> [] \<longrightarrow>
      chat_timeouts (resume_effect later (Some u) (logout s))
        = chat_timeouts s @ [(500, AddWelcomeMessage)])"
proof -
  let ?n = "length (filter clears_or_logs_out steps)"
  have b: "welcome_added (fold (chat_step u) steps s) \<le> welcome_added s + 1 + ?n"
    using run_budget [of u steps s] by (simp add: greeting_budget_def split: if_splits)
  have b': "filter clears_or_logs_out steps = [] \<longrightarrow>
      welcome_added (fold (chat_step u) steps s) \<le> welcome_added s + 1"
  proof
    assume e: "filter clears_or_logs_out steps = []"
    from b show "welcome_added (fold (chat_step u) steps s) \<le> welcome_added s + 1"
      unfolding e by simp
  qed
  have c: "filter clears_or_logs_out steps = [] \<and> truthy_sval (sessionStorage s (greetingKey u)) \<longrightarrow>
      welcome_added (fold (chat_step u) steps s) = welcome_added s"
    using run_budget [of u steps s] run_monotone [of s u steps]
    by (auto simp: greeting_budget_def split: if_splits)
  have f: "truthy_sval (sessionStorage (addWelcomeMessage now u s) (greetingKey u))"
    by (simp add: addWelcomeMessage_def Let_def truthy_sval_def)
  have g: "\<not> truthy_sval (sessionStorage s (greetingKey u)) \<longrightarrow>
      welcome_added (addWelcomeMessage now u s) = welcome_added s + 1 \<and>
      map msg_id (messages (addWelcomeMessage now u s)) = [''welcome'']"
    by (simp add: addWelcomeMessage_def Let_def)
  have g': "truthy_sval (sessionStorage s (greetingKey u)) \<longrightarrow> addWelcomeMessage now u s = s"
    by (simp add: addWelcomeMessage_def Let_def)
  have h: "filter clears_or_logs_out steps = [] \<longrightarrow>
      welcome_added (fold (chat_step u) steps (addWelcomeMessage now u s))
        = welcome_added (addWelcomeMessage now u s)"
    using run_budget [of u steps "addWelcomeMessage now u s"]
      run_monotone [of "addWelcomeMessage now u s" u steps] f
    by (auto simp: greeting_budget_def split: if_splits)
  have i: "sessionStorage (resume_effect now (Some u) s) (greetingKey u)
      = sessionStorage s (greetingKey u)"
    by (rule resume_flag)
  have j: "\<not> processing s \<and> user_id u \<noteq> [] \<longrightarrow>
      sessionStorage (clearChat now conn (Some u) s) (greetingKey u) = None \<and>
      chat_timeouts (resume_effect later (Some u) (clearChat now conn (Some u) s))
        = chat_timeouts s @ [(500, ShowChatCleared), (500, AddWelcomeMessage)]"
    by (simp add: clearChat_def resume_effect_def initializeNewConversation_def Let_def
        greetingKey_def split: option.splits sval.splits)
  have k: "sessionStorage (logout s) (greetingKey u) = None"
    by (simp add: logout_def)
  have l: "user_id u \<noteq> [] \<longrightarrow>
      chat_timeouts (resume_effect later (Some u) (logout s))
        = chat_timeouts s @ [(500, AddWelcomeMessage)]"
    by (simp add: logout_def resume_effect_def initializeNewConversation_def Let_def
        split: option.splits sval.splits)
  from b b' c f g g' h i j k l show ?thesis by (intro conjI)
qed


theorem greeting_once_until_clear_or_logout_witness:
  "welcome_added (fold (chat_step alice)
       [ResumeEffect 10, WelcomeTimeout 510, ResumeEffect 600, WelcomeTimeout 1100,
        NewLogin ''1700000900000'', ResumeEffect 2000, WelcomeTimeout 2500] empty_chat) = 1 \<and>
   welcome_added (fold (chat_step alice) [ResumeEffect 10, WelcomeTimeout 510] empty_chat) = 1"
proof -
  have a: "welcome_added (fold (chat_step alice) [ResumeEffect 10, WelcomeTimeout 510] empty_chat) = 1"
    by (simp add: resume_effect_def addWelcomeMessage_def initializeNewConversation_def Let_def
        empty_chat_def alice_def greetingKey_def truthy_sval_def truthy_str_def)
  have b: "truthy_sval (sessionStorage
      (fold (chat_step alice) [ResumeEffect 10, WelcomeTimeout 510] empty_chat) (greetingKey alice))"
    by (simp add: resume_effect_def addWelcomeMessage_def initializeNewConversation_def Let_def
        empty_chat_def alice_def greetingKey_def truthy_sval_def truthy_str_def)
  have c: "filter clears_or_logs_out [ResumeEffect 600, WelcomeTimeout 1100,
        NewLogin ''1700000900000'', ResumeEffect 2000, WelcomeTimeout 2500] = []"
    by simp
  from greeting_once_until_clear_or_logout [where u = alice
      and s = "fold (chat_step alice) [ResumeEffect 10, WelcomeTimeout 510] empty_chat"
      and steps = "[ResumeEffect 600, WelcomeTimeout 1100,
        NewLogin ''1700000900000'', ResumeEffect 2000, WelcomeTimeout 2500]", THEN conjunct2,
      THEN conjunct2, THEN conjunct1, THEN mp, OF conjI, OF c b] a
  show ?thesis by simp
qed

text \<open>
  In one browser session the greeting is shown, the chat is cleared and the
  next resume greets again; the same after a logout and a new login.
\<close>

theorem greeting_again_after_clear_or_logout_counterexample:
  "welcome_added (fold (chat_step alice)
       [ResumeEffect 10, WelcomeTimeout 510, ClearChat 600 True, ChatClearedTimeout 1100,
        ResumeEffect 2000, WelcomeTimeout 2500] empty_chat) = 2 \<and>
   welcome_added (fold (chat_step alice)
       [ResumeEffect 10, WelcomeTimeout 510, Logout, NewLogin ''1700000900000'',
        ResumeEffect 2000, WelcomeTimeout 2500] empty_chat) = 2"
  by (simp add: resume_effect_def addWelcomeMessage_def initializeNewConversation_def Let_def
      empty_chat_def alice_def greetingKey_def truthy_sval_def truthy_str_def clearChat_def
      showChatCleared_def logout_def)

subsection \<open>The seen-id check\<close>





















end
